theory Spec2Isabelle
  imports Complex_Main "HOL-Library.Word" "HOL-Library.Multiset"
begin


section \<open>The Go library functions the detectors call\<close>

text \<open>
  Go strings are byte sequences, modelled as \<open>string\<close> (a list of 8-bit characters).
  Go's \<open>int\<close> is taken to be 64 bits wide (amd64, arm64); it is modelled by \<open>int\<close>, with
  the range written out where a conversion can leave it.  A \<open>float32\<close> is modelled by
  a real number: the finite values, compared and multiplied exactly.  Rounding, the
  infinities and NaN (on which every comparison of Go is false) are not represented.  The
  general theorems below use the order of the scores and coordinates and the products as
  the source writes them, no other arithmetic; the concrete runs use values that
  \<open>float32\<close> holds exactly wherever the outcome depends on them.
\<close>

type_synonym float32 = real

subsection \<open>strings.SplitAfterN(s, " ", 2)\<close>

text \<open>
  At most two fields: the text up to and including the first space, and the rest.  A
  string without a space (the empty string too) is one field.
\<close>

definition SplitAfterN2 :: "string \<Rightarrow> string list" where
  "SplitAfterN2 s =
     (case dropWhile (\<lambda>c. c \<noteq> CHR '' '') s of
        [] \<Rightarrow> [s]
      | sep # rest \<Rightarrow> [takeWhile (\<lambda>c. c \<noteq> CHR '' '') s @ [sep], rest])"

subsection \<open>strings.TrimSpace\<close>

text \<open>
  \<open>unicode.IsSpace\<close> holds of the six ASCII spaces, of U+0085 and U+00A0, and of the
  runes with the White_Space property: U+1680, U+2000..U+200A, U+2028, U+2029, U+202F,
  U+205F, U+3000.  \<open>space_width s\<close> is the number of bytes of the UTF-8 encoding of
  such a rune at the start of \<open>s\<close>, and 0 when \<open>s\<close> starts with anything else (an
  invalid byte decodes to the error rune, which is no space).
\<close>

definition asciiSpace :: "char \<Rightarrow> bool" where
  "asciiSpace c \<longleftrightarrow> c \<in> set [CHR 0x09, CHR 0x0A, CHR 0x0B, CHR 0x0C, CHR 0x0D, CHR 0x20]"

definition e2_80_spaces :: "char list" where
  "e2_80_spaces = [CHR 0x80, CHR 0x81, CHR 0x82, CHR 0x83, CHR 0x84, CHR 0x85, CHR 0x86,
     CHR 0x87, CHR 0x88, CHR 0x89, CHR 0x8A, CHR 0xA8, CHR 0xA9, CHR 0xAF]"

definition space3 :: "char \<Rightarrow> char \<Rightarrow> char \<Rightarrow> bool" where
  "space3 a b c \<longleftrightarrow>
     (a = CHR 0xE1 \<and> b = CHR 0x9A \<and> c = CHR 0x80) \<or>
     (a = CHR 0xE2 \<and> b = CHR 0x80 \<and> c \<in> set e2_80_spaces) \<or>
     (a = CHR 0xE2 \<and> b = CHR 0x81 \<and> c = CHR 0x9F) \<or>
     (a = CHR 0xE3 \<and> b = CHR 0x80 \<and> c = CHR 0x80)"

definition space2 :: "char \<Rightarrow> char \<Rightarrow> bool" where
  "space2 a b \<longleftrightarrow> a = CHR 0xC2 \<and> (b = CHR 0x85 \<or> b = CHR 0xA0)"

fun space_width :: "string \<Rightarrow> nat" where
  "space_width [] = 0"
| "space_width [a] = (if asciiSpace a then 1 else 0)"
| "space_width [a, b] = (if asciiSpace a then 1 else if space2 a b then 2 else 0)"
| "space_width (a # b # c # s) =
     (if asciiSpace a then 1 else if space2 a b then 2 else if space3 a b c then 3 else 0)"

text \<open>
  The same from the end of the string, as \<open>utf8.DecodeLastRuneInString\<close> reads it;
  the argument is the reversed string.
\<close>

fun last_space_width :: "string \<Rightarrow> nat" where
  "last_space_width [] = 0"
| "last_space_width [c] = (if asciiSpace c then 1 else 0)"
| "last_space_width [c, b] = (if asciiSpace c then 1 else if space2 b c then 2 else 0)"
| "last_space_width (c # b # a # s) =
     (if asciiSpace c then 1 else if space2 b c then 2 else if space3 a b c then 3 else 0)"

fun TrimLeftSpace :: "string \<Rightarrow> string" where
  "TrimLeftSpace [] = []"
| "TrimLeftSpace (a # s) =
     (if space_width (a # s) = 0 then a # s
      else TrimLeftSpace (drop (space_width (a # s) - 1) s))"

fun trim_rev :: "string \<Rightarrow> string" where
  "trim_rev [] = []"
| "trim_rev (c # s) =
     (if last_space_width (c # s) = 0 then c # s
      else trim_rev (drop (last_space_width (c # s) - 1) s))"

definition TrimRightSpace :: "string \<Rightarrow> string" where
  "TrimRightSpace s = rev (trim_rev (rev s))"

definition TrimSpace :: "string \<Rightarrow> string" where
  "TrimSpace s = TrimRightSpace (TrimLeftSpace s)"

subsection \<open>strconv.Atoi\<close>

text \<open>
  An optional sign, then one or more decimal digits and nothing else; a value outside
  the 64-bit range is an error too.  \<open>None\<close> is the error.
\<close>

definition isDigit :: "char \<Rightarrow> bool" where
  "isDigit c \<longleftrightarrow> of_char (CHR ''0'') \<le> (of_char c :: nat) \<and> (of_char c :: nat) \<le> of_char (CHR ''9'')"

definition digitsValue :: "string \<Rightarrow> nat" where
  "digitsValue ds = foldl (\<lambda>n ch. n * 10 + (of_char ch - of_char (CHR ''0''))) 0 ds"

definition Atoi :: "string \<Rightarrow> int option" where
  "Atoi s =
     (let neg = (s \<noteq> [] \<and> hd s = CHR ''-'');
          ds = (if s \<noteq> [] \<and> (hd s = CHR ''-'' \<or> hd s = CHR ''+'') then tl s else s);
          v = (if neg then - int (digitsValue ds) else int (digitsValue ds))
      in if ds = [] \<or> \<not> list_all isDigit ds then None
         else if - (2 ^ 63) \<le> v \<and> v < 2 ^ 63 then Some v
         else None)"

section \<open>Label loading (New, both detectors)\<close>

text \<open>
  The loop of \<open>New\<close> over the scanner's lines, the same text in both detectors:
  \<open>x\<close> counts the lines from 1, whatever the line holds; \<open>d.labels\<close> is the table
  and \<open>d.config.Labels\<close> the list of labels in file order.
\<close>

record label_state =
  labels :: "int \<rightharpoonup> string"
  config_Labels :: "string list"

definition label_line :: "int \<Rightarrow> string \<Rightarrow> label_state \<Rightarrow> label_state" where
  "label_line x text st =
     (case SplitAfterN2 text of
        [f0] \<Rightarrow> st\<lparr>labels := (labels st)(x \<mapsto> f0), config_Labels := config_Labels st @ [f0]\<rparr>
      | [f0, f1] \<Rightarrow>
          (case Atoi (TrimSpace f0) of
             Some y \<Rightarrow> st\<lparr>labels := (labels st)(y \<mapsto> TrimSpace f1),
                          config_Labels := config_Labels st @ [TrimSpace f1]\<rparr>
           | None \<Rightarrow> st)
      | _ \<Rightarrow> st)"

fun label_loop :: "int \<Rightarrow> string list \<Rightarrow> label_state \<Rightarrow> label_state" where
  "label_loop x [] st = st"
| "label_loop x (text # rest) st = label_loop (x + 1) rest (label_line x text st)"

definition load_labels :: "string list \<Rightarrow> label_state" where
  "load_labels lines = label_loop 1 lines \<lparr>labels = Map.empty, config_Labels = []\<rparr>"

text \<open>
  The table the spec describes, in its own words: a line without a space is a bare
  label and takes the sequential index \<open>x\<close> (the number of the line, counted from 1);
  a line with a space is an \<open><index> <label>\<close> pair, the index being the text before
  the first space and the label the text after it, both with the white space trimmed;
  a pair whose index is no integer contributes nothing.
\<close>

definition spec_entry :: "int \<Rightarrow> string \<Rightarrow> (int \<times> string) option" where
  "spec_entry x text =
     (if CHR '' '' \<notin> set text then Some (x, text)
      else (case Atoi (TrimSpace (takeWhile (\<lambda>c. c \<noteq> CHR '' '') text)) of
              Some y \<Rightarrow> Some (y, TrimSpace (tl (dropWhile (\<lambda>c. c \<noteq> CHR '' '') text)))
            | None \<Rightarrow> None))"

fun spec_entries :: "int \<Rightarrow> string list \<Rightarrow> (int \<times> string) list" where
  "spec_entries x [] = []"
| "spec_entries x (text # rest) =
     (case spec_entry x text of Some e \<Rightarrow> [e] | None \<Rightarrow> []) @ spec_entries (x + 1) rest"

section \<open>Conversions from float32 to integers\<close>

text \<open>
  A conversion of a floating-point value to an integer type discards the fraction
  (truncation towards zero).  When the truncated value does not fit the integer type the
  conversion succeeds with an implementation-dependent result; \<open>platform\<close> holds that
  result, so that every theorem below is about all of them.
\<close>

record platform =
  oor_int :: "float32 \<Rightarrow> int"
  oor_int32 :: "float32 \<Rightarrow> 32 word"

definition amd64 :: platform where
  "amd64 = \<lparr>oor_int = (\<lambda>f. - (2 ^ 63)), oor_int32 = (\<lambda>f. word_of_int (- (2 ^ 31)))\<rparr>"

definition go_trunc :: "float32 \<Rightarrow> int" where
  "go_trunc f = (if 0 \<le> f then \<lfloor>f\<rfloor> else \<lceil>f\<rceil>)"

definition float_to_int :: "platform \<Rightarrow> float32 \<Rightarrow> int" where
  "float_to_int pf f =
     (if - (2 ^ 63) \<le> go_trunc f \<and> go_trunc f < 2 ^ 63 then go_trunc f else oor_int pf f)"

definition float_to_int32 :: "platform \<Rightarrow> float32 \<Rightarrow> 32 word" where
  "float_to_int32 pf f =
     (if - (2 ^ 31) \<le> go_trunc f \<and> go_trunc f < 2 ^ 31 then word_of_int (go_trunc f)
      else oor_int32 pf f)"

text \<open>\<open>int32(n)\<close> of an \<open>int\<close> keeps the low 32 bits.\<close>

definition int_to_int32 :: "int \<Rightarrow> 32 word" where
  "int_to_int32 n = word_of_int n"

section \<open>Detection filter and mapper (the loop of Detect, both detectors)\<close>

datatype go_panic =
    IndexOutOfRange | SliceBoundsOutOfRange | MakeSliceLenOutOfRange | MakeChanSizeOutOfRange
  | NilDereference

text \<open>Indexing a slice with an \<open>int\<close> panics outside the slice.\<close>

definition index :: "'a list \<Rightarrow> int \<Rightarrow> go_panic + 'a" where
  "index xs i = (if 0 \<le> i \<and> i < int (length xs) then Inr (xs ! nat i) else Inl IndexOutOfRange)"

text \<open>\<open>label, ok := d.labels[k]\<close>: a missing key gives the empty string.\<close>

definition lookup_label :: "(int \<rightharpoonup> string) \<Rightarrow> int \<Rightarrow> string" where
  "lookup_label lbls k = (case lbls k of Some l \<Rightarrow> l | None \<Rightarrow> [])"

text \<open>
  The chain of conditions on \<open>request.Detect\<close>, the same text in both detectors.
  The result is \<open>True\<close> where the source says \<open>continue\<close>.  \<open>scores[i]\<close> is read only
  in the two branches that compare it.
\<close>

definition filter_skip :: "(string \<rightharpoonup> float32) \<Rightarrow> string \<Rightarrow> float32 list \<Rightarrow> int \<Rightarrow> go_panic + bool" where
  "filter_skip detect label scores i =
     (case detect label of
        Some score \<Rightarrow>
          (case index scores i of Inl p \<Rightarrow> Inl p | Inr s \<Rightarrow> Inr (s * 100 < score))
      | None \<Rightarrow>
          (case detect ''*'' of
             Some score \<Rightarrow>
               (case index scores i of Inl p \<Rightarrow> Inl p | Inr s \<Rightarrow> Inr (s * 100 < score))
           | None \<Rightarrow> Inr (detect \<noteq> Map.empty)))"

text \<open>
  \<open>for i := 0; i < count; i++\<close> with a body that panics, continues, or appends one
  detection.
\<close>

function detections_loop ::
  "(int \<Rightarrow> go_panic + 'd option) \<Rightarrow> int \<Rightarrow> int \<Rightarrow> 'd list \<Rightarrow> go_panic + 'd list" where
  "detections_loop body cnt i detections =
     (if i < cnt then
        (case body i of
           Inl p \<Rightarrow> Inl p
         | Inr None \<Rightarrow> detections_loop body cnt (i + 1) detections
         | Inr (Some d) \<Rightarrow> detections_loop body cnt (i + 1) (detections @ [d]))
      else Inr detections)"
  by pat_completeness auto
termination
  by (relation "measure (\<lambda>(body, cnt, i, detections). nat (cnt - i))") auto

subsection \<open>The tflite detector: normalized coordinates\<close>

record Detection =
  Top :: float32
  Left :: float32
  Bottom :: float32
  Right :: float32
  Label :: string
  Confidence :: float32

definition tflite_cleanup :: "Detection \<Rightarrow> Detection" where
  "tflite_cleanup d0 =
     (let d1 = (if Top d0 < 0 then d0\<lparr>Top := 0\<rparr> else d0);
          d2 = (if Left d1 < 0 then d1\<lparr>Left := 0\<rparr> else d1);
          d3 = (if Bottom d2 > 1 then d2\<lparr>Bottom := 1\<rparr> else d2);
          d4 = (if Right d3 > 1 then d3\<lparr>Right := 1\<rparr> else d3)
      in d4)"

definition tflite_detection ::
  "float32 \<Rightarrow> float32 \<Rightarrow> float32 \<Rightarrow> float32 \<Rightarrow> string \<Rightarrow> float32 \<Rightarrow> Detection" where
  "tflite_detection t l b r label s =
     tflite_cleanup \<lparr>Top = t, Left = l, Bottom = b, Right = r, Label = label, Confidence = s * 100\<rparr>"

definition tflite_candidate ::
  "platform \<Rightarrow> (int \<rightharpoonup> string) \<Rightarrow> (string \<rightharpoonup> float32) \<Rightarrow> float32 list \<Rightarrow> float32 list \<Rightarrow>
   float32 list \<Rightarrow> int \<Rightarrow> go_panic + Detection option" where
  "tflite_candidate pf lbls detect locations classes scores i =
     (case index classes i of
        Inl p \<Rightarrow> Inl p
      | Inr cls \<Rightarrow>
          (let label = lookup_label lbls (float_to_int pf cls) in
           case filter_skip detect label scores i of
             Inl p \<Rightarrow> Inl p
           | Inr True \<Rightarrow> Inr None
           | Inr False \<Rightarrow>
               (case (index locations (i * 4), index locations (i * 4 + 1),
                      index locations (i * 4 + 2), index locations (i * 4 + 3),
                      index scores i) of
                  (Inr t, Inr l, Inr b, Inr r, Inr s) \<Rightarrow>
                    Inr (Some (tflite_detection t l b r label s))
                | _ \<Rightarrow> Inl IndexOutOfRange)))"

definition tflite_detections ::
  "platform \<Rightarrow> (int \<rightharpoonup> string) \<Rightarrow> (string \<rightharpoonup> float32) \<Rightarrow> float32 list \<Rightarrow> float32 list \<Rightarrow>
   float32 list \<Rightarrow> int \<Rightarrow> go_panic + Detection list" where
  "tflite_detections pf lbls detect locations classes scores cnt =
     detections_loop (tflite_candidate pf lbls detect locations classes scores) cnt 0 []"

subsection \<open>The tensorflow detector: pixel coordinates\<close>

record DetectionPx =
  Y1 :: "32 word"
  X1 :: "32 word"
  Y2 :: "32 word"
  X2 :: "32 word"
  LabelPx :: string
  ConfidencePx :: float32

text \<open>The comparisons are those of \<open>int32\<close>: signed.\<close>

definition tf_cleanup :: "int \<Rightarrow> int \<Rightarrow> DetectionPx \<Rightarrow> DetectionPx" where
  "tf_cleanup imgWidth imgHeight d0 =
     (let d1 = (if sint (Y1 d0) < 0 then d0\<lparr>Y1 := 0\<rparr> else d0);
          d2 = (if sint (X1 d1) < 0 then d1\<lparr>X1 := 0\<rparr> else d1);
          d3 = (if sint (Y2 d2) > sint (int_to_int32 imgHeight)
                then d2\<lparr>Y2 := int_to_int32 imgHeight\<rparr> else d2);
          d4 = (if sint (X2 d3) > sint (int_to_int32 imgWidth)
                then d3\<lparr>X2 := int_to_int32 imgWidth\<rparr> else d3)
      in d4)"

definition tf_detection ::
  "platform \<Rightarrow> int \<Rightarrow> int \<Rightarrow> float32 \<Rightarrow> float32 \<Rightarrow> float32 \<Rightarrow> float32 \<Rightarrow> string \<Rightarrow> float32 \<Rightarrow>
   DetectionPx" where
  "tf_detection pf imgWidth imgHeight l0 l1 l2 l3 label s =
     tf_cleanup imgWidth imgHeight
       \<lparr>Y1 = float_to_int32 pf (l0 * real_of_int imgHeight),
        X1 = float_to_int32 pf (l1 * real_of_int imgWidth),
        Y2 = float_to_int32 pf (l2 * real_of_int imgHeight),
        X2 = float_to_int32 pf (l3 * real_of_int imgWidth),
        LabelPx = label, ConfidencePx = s * 100\<rparr>"

definition tf_candidate ::
  "platform \<Rightarrow> (int \<rightharpoonup> string) \<Rightarrow> (string \<rightharpoonup> float32) \<Rightarrow> int \<Rightarrow> int \<Rightarrow> float32 list list \<Rightarrow>
   float32 list \<Rightarrow> float32 list \<Rightarrow> int \<Rightarrow> go_panic + DetectionPx option" where
  "tf_candidate pf lbls detect imgWidth imgHeight locations classes scores i =
     (case index classes i of
        Inl p \<Rightarrow> Inl p
      | Inr cls \<Rightarrow>
          (let label = lookup_label lbls (float_to_int pf cls) in
           case filter_skip detect label scores i of
             Inl p \<Rightarrow> Inl p
           | Inr True \<Rightarrow> Inr None
           | Inr False \<Rightarrow>
               (case index locations i of
                  Inl p \<Rightarrow> Inl p
                | Inr loc \<Rightarrow>
                    (case (index loc 0, index loc 1, index loc 2, index loc 3, index scores i) of
                       (Inr l0, Inr l1, Inr l2, Inr l3, Inr s) \<Rightarrow>
                         Inr (Some (tf_detection pf imgWidth imgHeight l0 l1 l2 l3 label s))
                     | _ \<Rightarrow> Inl IndexOutOfRange))))"

definition tf_detections ::
  "platform \<Rightarrow> (int \<rightharpoonup> string) \<Rightarrow> (string \<rightharpoonup> float32) \<Rightarrow> int \<Rightarrow> int \<Rightarrow> float32 list list \<Rightarrow>
   float32 list \<Rightarrow> float32 list \<Rightarrow> int \<Rightarrow> go_panic + DetectionPx list" where
  "tf_detections pf lbls detect imgWidth imgHeight locations classes scores cnt =
     detections_loop (tf_candidate pf lbls detect imgWidth imgHeight locations classes scores)
       cnt 0 []"

subsection \<open>The filter decision and the mapped candidates, as the spec words them\<close>

definition spec_accepts :: "(string \<rightharpoonup> float32) \<Rightarrow> string \<Rightarrow> float32 \<Rightarrow> bool" where
  "spec_accepts filterSpec label score =
     (if label \<in> dom filterSpec then score * 100 \<ge> the (filterSpec label)
      else if ''*'' \<in> dom filterSpec then score * 100 \<ge> the (filterSpec ''*'')
      else if filterSpec \<noteq> Map.empty then False
      else True)"

definition candidate_label :: "platform \<Rightarrow> (int \<rightharpoonup> string) \<Rightarrow> float32 list \<Rightarrow> int \<Rightarrow> string" where
  "candidate_label pf lbls classes j = lookup_label lbls (float_to_int pf (classes ! nat j))"

definition tflite_mapped ::
  "platform \<Rightarrow> (int \<rightharpoonup> string) \<Rightarrow> float32 list \<Rightarrow> float32 list \<Rightarrow> float32 list \<Rightarrow> int \<Rightarrow> Detection" where
  "tflite_mapped pf lbls locations classes scores j =
     tflite_detection (locations ! nat (j * 4)) (locations ! nat (j * 4 + 1))
       (locations ! nat (j * 4 + 2)) (locations ! nat (j * 4 + 3))
       (candidate_label pf lbls classes j) (scores ! nat j)"

definition tf_mapped ::
  "platform \<Rightarrow> (int \<rightharpoonup> string) \<Rightarrow> int \<Rightarrow> int \<Rightarrow> float32 list list \<Rightarrow> float32 list \<Rightarrow> float32 list \<Rightarrow>
   int \<Rightarrow> DetectionPx" where
  "tf_mapped pf lbls imgWidth imgHeight locations classes scores j =
     tf_detection pf imgWidth imgHeight (locations ! nat j ! 0) (locations ! nat j ! 1)
       (locations ! nat j ! 2) (locations ! nat j ! 3)
       (candidate_label pf lbls classes j) (scores ! nat j)"

definition tflite_batch :: "float32 list \<Rightarrow> float32 list \<Rightarrow> float32 list \<Rightarrow> int \<Rightarrow> bool" where
  "tflite_batch locations classes scores cnt \<longleftrightarrow>
     cnt \<le> int (length classes) \<and> cnt \<le> int (length scores) \<and> cnt * 4 \<le> int (length locations)"

definition tf_batch :: "float32 list list \<Rightarrow> float32 list \<Rightarrow> float32 list \<Rightarrow> int \<Rightarrow> bool" where
  "tf_batch locations classes scores cnt \<longleftrightarrow>
     cnt \<le> int (length classes) \<and> cnt \<le> int (length scores) \<and> cnt \<le> int (length locations) \<and>
     list_all (\<lambda>loc. 4 \<le> length loc) (take (nat cnt) locations)"

section \<open>Channels, exits and the process-wide stop\<close>

text \<open>
  A buffered channel holds at most \<open>cap\<close> values, first in first out.  The model runs
  one goroutine at a time: a send on a full channel and a receive on an empty one, which
  wait for another goroutine, are \<open>None\<close>.
\<close>

record 'a chan =
  buf :: "'a list"
  cap :: nat

definition chan_send :: "'a \<Rightarrow> 'a chan \<Rightarrow> 'a chan option" where
  "chan_send v c = (if length (buf c) < cap c then Some (c\<lparr>buf := buf c @ [v]\<rparr>) else None)"

definition chan_recv :: "'a chan \<Rightarrow> ('a \<times> 'a chan) option" where
  "chan_recv c = (case buf c of [] \<Rightarrow> None | v # rest \<Rightarrow> Some (v, c\<lparr>buf := rest\<rparr>))"

text \<open>How a call ends: it returns a value, it panics, or it never returns.\<close>

datatype 'a exit = Returns 'a | Panics go_panic | Blocks

text \<open>
  Modelled from the spec: the package \<open>conf\<close> with its global \<open>Stop\<close> is not among the
  sources.  The spec describes it as a shutdown barrier: a counter of the operations in
  flight, incremented when a request starts and decremented when it ends, which gates the
  teardown, and a process-wide shutdown sequence that \<open>Stop\<close> triggers.  \<open>running\<close>
  counts the goroutines inside \<open>Invoke\<close> that nobody waits for any more.
\<close>

record process =
  Stop_count :: int
  Stop_requested :: bool
  running :: nat

definition Stop_Add :: "int \<Rightarrow> process \<Rightarrow> process" where
  "Stop_Add n p = p\<lparr>Stop_count := Stop_count p + n\<rparr>"

definition Stop_Done :: "process \<Rightarrow> process" where
  "Stop_Done p = p\<lparr>Stop_count := Stop_count p - 1\<rparr>"

definition Stop_Stop :: "process \<Rightarrow> process" where
  "Stop_Stop p = p\<lparr>Stop_requested := True\<rparr>"

section \<open>The tflite detector\<close>

subsection \<open>Data\<close>

type_synonym Device = string

datatype Status = OK | Error

datatype TensorType = NoType | Float32 | Int32 | UInt8 | OtherType

record DetectorConfig =
  Name :: string
  Type :: string
  ModelFile :: string
  LabelFile :: string
  NumThreads :: int
  NumConcurrent :: int
  HWAccel :: bool
  Timeout :: int

record odrpc_Detector =
  cfg_Name :: string
  cfg_Type :: string
  cfg_Model :: string
  cfg_Labels :: "string list"
  cfg_Width :: "32 word"
  cfg_Height :: "32 word"
  cfg_Channels :: "32 word"

text \<open>
  A worker handle: \<open>device\<close> is the index of the slot of \<open>d.devices\<close> it points to,
  \<open>interpreter\<close> names the interpreter it owns; \<open>input\<close> is what was last copied into
  its input tensor and \<open>invoked\<close> counts the calls of \<open>Invoke\<close> started on it.
\<close>

record tflInterpreter =
  device :: "nat option"
  interpreter :: nat
  input :: "8 word list"
  invoked :: nat

record detector =
  config :: odrpc_Detector
  d_labels :: "int \<rightharpoonup> string"
  inputType :: TensorType
  pool :: "tflInterpreter chan"
  devices :: "Device list"
  numThreads :: int
  hwAccel :: bool
  timeout :: int

subsection \<open>New\<close>

text \<open>
  What the collaborators answer during one call of \<open>New\<close>: whether the model file
  loads, the lines of the label file (\<open>None\<close> when it cannot be opened), the device
  list, for the \<open>x\<close>-th interpreter whether the edgetpu delegate and the interpreter are
  created and what \<open>AllocateTensors\<close> returns, and the shape and type of the input
  tensor.
\<close>

record new_env =
  NewModelFromFile :: bool
  label_lines :: "string list option"
  DeviceList :: "string + Device list"
  edgetpu_New :: "nat \<Rightarrow> bool"
  NewInterpreter :: "nat \<Rightarrow> bool"
  AllocateTensors :: "nat \<Rightarrow> Status"
  input_Dim :: "nat \<Rightarrow> int"
  input_Type :: TensorType

datatype new_error =
    CouldNotLoadModel | CouldNotLoadLabel | DeviceListFailed | NoDevices
  | CouldNotInitializeEdgetpu | CouldNotCreateInterpreter | AllocateFailed
  | UnsupportedInputType | CouldNotReadModel | CouldNotImportModel | CouldNotCreateSession

text \<open>
  \<open>newInterpreter\<close>, for the \<open>x\<close>-th handle.  The second component lists the
  interpreters that exist and were not deleted: an interpreter whose tensors cannot be
  allocated is created and not deleted.
\<close>

definition newInterpreter :: "new_env \<Rightarrow> nat \<Rightarrow> nat option \<Rightarrow> nat list \<Rightarrow> (new_error + nat) \<times> nat list" where
  "newInterpreter env x dev live =
     (if dev \<noteq> None \<and> \<not> edgetpu_New env x then (Inl CouldNotInitializeEdgetpu, live)
      else if \<not> NewInterpreter env x then (Inl CouldNotCreateInterpreter, live)
      else if AllocateTensors env x \<noteq> OK then (Inl AllocateFailed, live @ [x])
      else (Inr x, live @ [x]))"

text \<open>A fresh handle for a device slot (or none) and an interpreter.\<close>

definition new_handle :: "nat option \<Rightarrow> nat \<Rightarrow> tflInterpreter" where
  "new_handle dev i = \<lparr>device = dev, interpreter = i, input = [], invoked = 0\<rparr>"

text \<open>
  The loop that fills the pool, from \<open>x\<close> on: \<open>cur\<close> is the variable
  \<open>interpreter\<close>, \<open>nil\<close> before the first round.  The loop returns at the first
  handle that cannot be made, and waits for ever on a full channel.
\<close>

function pool_loop ::
  "new_env \<Rightarrow> bool \<Rightarrow> nat \<Rightarrow> int \<Rightarrow> int \<Rightarrow> tflInterpreter chan \<Rightarrow> tflInterpreter option \<Rightarrow> nat list \<Rightarrow>
   (new_error + tflInterpreter chan \<times> tflInterpreter option) exit \<times> nat list" where
  "pool_loop env hw ndev n x p cur live =
     (if x < n then
        (if hw \<and> \<not> nat x < ndev then (Panics IndexOutOfRange, live)
         else
           (let dev = (if hw then Some (nat x) else None) in
            case newInterpreter env (nat x) dev live of
              (Inl err, live') \<Rightarrow> (Returns (Inl err), live')
            | (Inr i, live') \<Rightarrow>
                (case chan_send (new_handle dev i) p of
                   None \<Rightarrow> (Blocks, live')
                 | Some p' \<Rightarrow> pool_loop env hw ndev n (x + 1) p' (Some (new_handle dev i)) live')))
      else (Returns (Inr (p, cur)), live))"
  by pat_completeness auto
termination
  by (relation "measure (\<lambda>(env, hw, ndev, n, x, p, cur, live). nat (n - x))") auto

text \<open>Lines 88 to 106: the device list replaces the configured concurrency.\<close>

definition use_edgetpu :: "new_env \<Rightarrow> detector \<Rightarrow> int \<Rightarrow> new_error + detector \<times> int" where
  "use_edgetpu env d n =
     (if hwAccel d then
        (case DeviceList env of
           Inl err \<Rightarrow> Inl DeviceListFailed
         | Inr devs \<Rightarrow>
             if length devs = 0 then Inl NoDevices
             else Inr (d\<lparr>devices := devs,
                         config := (config d)\<lparr>cfg_Type := ''tflite-edgetpu''\<rparr>,
                         timeout := (if timeout d = 0 then 30 * 1000000000 else timeout d)\<rparr>,
                       int (length devs)))
      else Inr (d, n))"

text \<open>Lines 47 to 85: the detector before the devices and the pool are set up.\<close>

definition new_detector :: "DetectorConfig \<Rightarrow> label_state \<Rightarrow> detector" where
  "new_detector c ls =
     \<lparr>config = \<lparr>cfg_Name = Name c, cfg_Type = Type c, cfg_Model = ModelFile c,
                 cfg_Labels = config_Labels ls, cfg_Width = 0, cfg_Height = 0, cfg_Channels = 0\<rparr>,
       d_labels = labels ls, inputType = NoType,
       pool = \<lparr>buf = [], cap = nat (NumConcurrent c)\<rparr>,
       devices = [], numThreads = NumThreads c, hwAccel = HWAccel c, timeout = Timeout c\<rparr>"

text \<open>Lines 127 to 137: the input tensor of the last interpreter made.\<close>

definition input_settings :: "new_env \<Rightarrow> detector \<Rightarrow> tflInterpreter chan \<Rightarrow> detector" where
  "input_settings env d p =
     d\<lparr>pool := p, inputType := input_Type env,
       config := (config d)\<lparr>cfg_Height := int_to_int32 (input_Dim env 1),
                            cfg_Width := int_to_int32 (input_Dim env 2),
                            cfg_Channels := int_to_int32 (input_Dim env 3)\<rparr>\<rparr>"

text \<open>
  \<open>New\<close>.  The channel is made with the configured concurrency as its capacity, before
  the device list replaces that number.  After the loop, \<open>interpreter\<close> is \<open>nil\<close> when
  no round was run.
\<close>

definition tflite_New :: "new_env \<Rightarrow> DetectorConfig \<Rightarrow> (new_error + detector) exit \<times> nat list" where
  "tflite_New env c =
     (if NumConcurrent c < 0 then (Panics MakeChanSizeOutOfRange, [])
      else if \<not> NewModelFromFile env then (Returns (Inl CouldNotLoadModel), [])
      else
        (case label_lines env of
           None \<Rightarrow> (Returns (Inl CouldNotLoadLabel), [])
         | Some lines \<Rightarrow>
             (case use_edgetpu env (new_detector c (load_labels lines)) (NumConcurrent c) of
                Inl err \<Rightarrow> (Returns (Inl err), [])
              | Inr (d, n) \<Rightarrow>
                  (case pool_loop env (hwAccel d) (length (devices d)) n 0 (pool d) None [] of
                     (Returns (Inl err), live) \<Rightarrow> (Returns (Inl err), live)
                   | (Panics pn, live) \<Rightarrow> (Panics pn, live)
                   | (Blocks, live) \<Rightarrow> (Blocks, live)
                   | (Returns (Inr (p, None)), live) \<Rightarrow> (Panics NilDereference, live)
                   | (Returns (Inr (p, Some h)), live) \<Rightarrow>
                       (if input_Type env \<noteq> UInt8 then (Returns (Inl UnsupportedInputType), live)
                        else (Returns (Inr (input_settings env d p)), live))))))"

subsection \<open>Detect\<close>

datatype codes = InvalidArgument | Internal

record DetectRequest =
  Id :: string
  Data :: "8 word list"
  Detect :: "string \<rightharpoonup> float32"

record DetectResponse =
  resp_Id :: string
  Detections :: "Detection list"

record PPMInfo =
  ppm_Width :: int
  ppm_Height :: int
  ppm_Offset :: int

record Image =
  img_Dx :: int
  img_Dy :: int
  img_At :: "int \<Rightarrow> int \<Rightarrow> 32 word \<times> 32 word \<times> 32 word"

text \<open>
  How the call of \<open>Invoke\<close> on the worker goes: it returns a status after so many
  nanoseconds, or it never returns.  \<open>select\<close> takes the completion when it comes before
  the timer, the timer when that fires first, and either when both are ready.
\<close>

datatype invocation = Completes nat Status | Hangs

datatype select_result = Complete | TimerFired

definition select_complete_or_timer :: "int \<Rightarrow> invocation \<Rightarrow> select_result \<Rightarrow> select_result" where
  "select_complete_or_timer tmo worker tie =
     (case worker of
        Hangs \<Rightarrow> TimerFired
      | Completes t status \<Rightarrow>
          if int t < tmo then Complete else if tmo < int t then TimerFired else tie)"

text \<open>
  What the collaborators answer during one call of \<open>Detect\<close>.  \<open>FindPPMData\<close> (of this
  package, not among the sources) and \<open>image.Decode\<close> are functions of the request's
  bytes.  \<open>repack\<close> stands for lines 203 to 222, which resize the decoded image and
  write its pixels into \<open>data\<close>: it gives that buffer, or the panic of a write outside
  it.  The output tensors are those the worker holds when \<open>Invoke\<close> has returned.
\<close>

record detect_env =
  FindPPMData :: "8 word list \<Rightarrow> PPMInfo option"
  image_Decode :: "8 word list \<Rightarrow> string + Image"
  repack :: "Image \<Rightarrow> go_panic + 8 word list"
  Invoke :: invocation
  select_tie :: select_result
  output_locations :: "float32 list"
  output_classes :: "float32 list"
  output_scores :: "float32 list"
  output_count :: "float32 list"

text \<open>\<open>s[k:]\<close> panics unless \<open>0 \<le> k \<le> len(s)\<close>.\<close>

definition slice_from :: "'a list \<Rightarrow> int \<Rightarrow> go_panic + 'a list" where
  "slice_from xs k =
     (if 0 \<le> k \<and> k \<le> int (length xs) then Inr (drop (nat k) xs) else Inl SliceBoundsOutOfRange)"

text \<open>Lines 197 to 222: the general path.\<close>

definition decode_image :: "detect_env \<Rightarrow> DetectRequest \<Rightarrow> (codes \<times> string + 8 word list) exit" where
  "decode_image env request =
     (case image_Decode env (Data request) of
        Inl err \<Rightarrow> Returns (Inl (InvalidArgument, ''could not decode image: '' @ err))
      | Inr img \<Rightarrow>
          (case repack env img of
             Inl pn \<Rightarrow> Panics pn
           | Inr data \<Rightarrow> Returns (Inr data)))"

text \<open>Line 192: the ppm header found in the request, when its size is the model's.\<close>

definition ppm_match :: "detect_env \<Rightarrow> detector \<Rightarrow> DetectRequest \<Rightarrow> PPMInfo option" where
  "ppm_match env d request =
     (case FindPPMData env (Data request) of
        Some ppmInfo \<Rightarrow>
          if int_to_int32 (ppm_Width ppmInfo) = cfg_Width (config d) \<and>
             int_to_int32 (ppm_Height ppmInfo) = cfg_Height (config d)
          then Some ppmInfo else None
      | None \<Rightarrow> None)"

text \<open>Lines 191 to 223: the input buffer, or the way \<open>Detect\<close> ends before it has one.\<close>

definition tflite_input :: "detect_env \<Rightarrow> detector \<Rightarrow> DetectRequest \<Rightarrow> (codes \<times> string + 8 word list) exit" where
  "tflite_input env d request =
     (case ppm_match env d request of
        Some ppmInfo \<Rightarrow>
          (case slice_from (Data request) (ppm_Offset ppmInfo) of
             Inl pn \<Rightarrow> Panics pn
           | Inr data \<Rightarrow> Returns (Inr data))
      | None \<Rightarrow> decode_image env request)"

text \<open>
  \<open>CopyToBuffer\<close> into a fresh slice of \<open>n\<close> zeros: the tensor's values, as far as
  the slice reaches.  (A tensor longer than the slice is written past its end in the
  source; that memory is not modelled.)
\<close>

definition CopyToBuffer :: "float32 list \<Rightarrow> nat \<Rightarrow> float32 list" where
  "CopyToBuffer tensor n = take n (tensor @ replicate n 0)"

text \<open>
  Lines 262 to 273.  \<open>make\<close> panics on a negative length, and \<open>&locations[0]\<close> on an
  empty slice.
\<close>

definition tflite_results ::
  "platform \<Rightarrow> detect_env \<Rightarrow> go_panic + float32 list \<times> float32 list \<times> float32 list \<times> int" where
  "tflite_results pf env =
     (let countResult = CopyToBuffer (output_count env) 1;
          cnt = float_to_int pf (countResult ! 0)
      in if cnt < 0 then Inl MakeSliceLenOutOfRange
         else if cnt = 0 then Inl IndexOutOfRange
         else Inr (CopyToBuffer (output_locations env) (nat (cnt * 4)),
                   CopyToBuffer (output_classes env) (nat cnt),
                   CopyToBuffer (output_scores env) (nat cnt), cnt))"

text \<open>
  The deferred function of lines 228 to 231, and an exit of \<open>Detect\<close> that runs it: a
  return or a panic after the worker was taken.
\<close>

definition tflite_deferred :: "tflInterpreter \<Rightarrow> detector \<times> process \<Rightarrow> (detector \<times> process) option" where
  "tflite_deferred h st =
     (case chan_send h (pool (fst st)) of
        None \<Rightarrow> None
      | Some p \<Rightarrow> Some ((fst st)\<lparr>pool := p\<rparr>, Stop_Done (snd st)))"

definition tflite_exit ::
  "'r exit \<Rightarrow> tflInterpreter \<Rightarrow> detector \<times> process \<Rightarrow> 'r exit \<times> detector \<times> process" where
  "tflite_exit r h st =
     (case tflite_deferred h st of
        None \<Rightarrow> (Blocks, st)
      | Some st' \<Rightarrow> (r, st'))"

text \<open>Lines 261 to 330: what \<open>Detect\<close> makes of the worker's output.\<close>

definition tflite_outcome ::
  "platform \<Rightarrow> detect_env \<Rightarrow> detector \<Rightarrow> DetectRequest \<Rightarrow> (codes \<times> string + DetectResponse) exit" where
  "tflite_outcome pf env d request =
     (case tflite_results pf env of
        Inl pn \<Rightarrow> Panics pn
      | Inr (locations, classes, scores, cnt) \<Rightarrow>
          (case tflite_detections pf (d_labels d) (Detect request) locations classes scores cnt of
             Inl pn \<Rightarrow> Panics pn
           | Inr detections \<Rightarrow> Returns (Inr \<lparr>resp_Id = Id request, Detections = detections\<rparr>)))"

text \<open>
  \<open>Detect\<close>.  The state is the detector and the process-wide stop.  After the worker
  \<open>h0\<close> is received, its input is loaded and \<open>Invoke\<close> is started on it in a
  goroutine of its own.  With a positive timeout, \<open>select\<close> decides; where the timer
  wins, the goroutine is left running.  \<open>invokeStatus\<close> is never read.
\<close>

definition tflite_Detect ::
  "platform \<Rightarrow> detect_env \<Rightarrow> DetectRequest \<Rightarrow> detector \<times> process \<Rightarrow>
   (codes \<times> string + DetectResponse) exit \<times> detector \<times> process" where
  "tflite_Detect pf env request st =
     (case tflite_input env (fst st) request of
        Returns (Inl err) \<Rightarrow> (Returns (Inl err), st)
      | Panics pn \<Rightarrow> (Panics pn, st)
      | Blocks \<Rightarrow> (Blocks, st)
      | Returns (Inr data) \<Rightarrow>
          (case chan_recv (pool (fst st)) of
             None \<Rightarrow> (Blocks, st)
           | Some (h0, p) \<Rightarrow>
               (let st1 = ((fst st)\<lparr>pool := p\<rparr>, Stop_Add 1 (snd st));
                    h = h0\<lparr>input := data, invoked := invoked h0 + 1\<rparr>
                in if timeout (fst st) > 0 \<and>
                      select_complete_or_timer (timeout (fst st)) (Invoke env) (select_tie env) = TimerFired
                   then tflite_exit (Returns (Inl (Internal, ''detect failed''))) h
                          (fst st1, (Stop_Stop (snd st1))\<lparr>running := running (snd st1) + 1\<rparr>)
                   else
                     (case Invoke env of
                        Hangs \<Rightarrow> (Blocks, fst st1, (snd st1)\<lparr>running := running (snd st1) + 1\<rparr>)
                      | Completes t invokeStatus \<Rightarrow>
                          tflite_exit (tflite_outcome pf env (fst st) request) h st1))))"

section \<open>The tensorflow detector\<close>

text \<open>A worker handle: \<open>runs\<close> counts the calls of \<open>Run\<close> on the session.\<close>

record Session =
  session :: nat
  runs :: nat

record tf_detector =
  tf_config :: odrpc_Detector
  tf_labels :: "int \<rightharpoonup> string"
  tf_pool :: "Session chan"

subsection \<open>New\<close>

record tf_new_env =
  tf_label_lines :: "string list option"
  ReadFile :: bool
  graph_Import :: bool
  NewSession :: "nat \<Rightarrow> bool"

text \<open>The second component lists the sessions that exist and were not closed.\<close>

function tf_pool_loop ::
  "tf_new_env \<Rightarrow> int \<Rightarrow> int \<Rightarrow> Session chan \<Rightarrow> nat list \<Rightarrow> (new_error + Session chan) exit \<times> nat list" where
  "tf_pool_loop env n x p live =
     (if x < n then
        (if \<not> NewSession env (nat x) then (Returns (Inl CouldNotCreateSession), live)
         else
           (case chan_send \<lparr>session = nat x, runs = 0\<rparr> p of
              None \<Rightarrow> (Blocks, live @ [nat x])
            | Some p' \<Rightarrow> tf_pool_loop env n (x + 1) p' (live @ [nat x])))
      else (Returns (Inr p), live))"
  by pat_completeness auto
termination
  by (relation "measure (\<lambda>(env, n, x, p, live). nat (n - x))") auto

definition tf_New :: "tf_new_env \<Rightarrow> DetectorConfig \<Rightarrow> (new_error + tf_detector) exit \<times> nat list" where
  "tf_New env c =
     (if NumConcurrent c < 0 then (Panics MakeChanSizeOutOfRange, [])
      else
        (case tf_label_lines env of
           None \<Rightarrow> (Returns (Inl CouldNotLoadLabel), [])
         | Some lines \<Rightarrow>
             (let ls = load_labels lines in
              if \<not> ReadFile env then (Returns (Inl CouldNotReadModel), [])
              else if \<not> graph_Import env then (Returns (Inl CouldNotImportModel), [])
              else
                (case tf_pool_loop env (NumConcurrent c) 0 \<lparr>buf = [], cap = nat (NumConcurrent c)\<rparr> [] of
                   (Returns (Inr p), live) \<Rightarrow>
                     (Returns (Inr \<lparr>tf_config = \<lparr>cfg_Name = Name c, cfg_Type = Type c,
                                      cfg_Model = ModelFile c, cfg_Labels = config_Labels ls,
                                      cfg_Width = - 1, cfg_Height = - 1, cfg_Channels = 0\<rparr>,
                                    tf_labels = labels ls, tf_pool = p\<rparr>), live)
                 | (Returns (Inl err), live) \<Rightarrow> (Returns (Inl err), live)
                 | (Panics pn, live) \<Rightarrow> (Panics pn, live)
                 | (Blocks, live) \<Rightarrow> (Blocks, live)))))"

subsection \<open>Detect\<close>

record tf_DetectResponse =
  tf_Id :: string
  tf_Detections :: "DetectionPx list"
  tf_Error :: string

record tf_output =
  detection_boxes :: "float32 list list list"
  detection_scores :: "float32 list list"
  detection_classes :: "float32 list list"
  num_detections :: "float32 list"

text \<open>
  What the collaborators answer during one call: \<open>image.DecodeConfig\<close> (width, height
  and format), gocv's \<open>IMDecode\<close> (columns and rows) and \<open>IMEncode\<close>, the errors of
  \<open>tf.NewTensor\<close>, of the session that decodes the image and of its \<open>Run\<close>, and the
  result of \<open>sess.Run\<close> on the worker.
\<close>

record tf_env =
  DecodeConfig :: "8 word list \<Rightarrow> string + int \<times> int \<times> string"
  IMDecode :: "8 word list \<Rightarrow> string + int \<times> int"
  IMEncode :: "8 word list \<Rightarrow> string + 8 word list"
  NewTensor :: "string option"
  image_NewSession :: "string option"
  image_Run :: "string option"
  sess_Run :: "string + tf_output"

definition error_response :: "DetectRequest \<Rightarrow> string \<Rightarrow> tf_DetectResponse" where
  "error_response request msg = \<lparr>tf_Id = Id request, tf_Detections = [], tf_Error = msg\<rparr>"

text \<open>Lines 125 to 149: the image's width and height after the conversion to bmp, if any.\<close>

definition tf_convert :: "tf_env \<Rightarrow> DetectRequest \<Rightarrow> int \<Rightarrow> int \<Rightarrow> string \<Rightarrow> string + int \<times> int" where
  "tf_convert env request w h imgType =
     (if imgType \<noteq> ''png'' \<and> imgType \<noteq> ''gif'' \<and> imgType \<noteq> ''jpg'' \<and> imgType \<noteq> ''bmp'' then
        (case IMDecode env (Data request) of
           Inl err \<Rightarrow> Inl (''Could not decode image: '' @ err)
         | Inr (cols, rows) \<Rightarrow>
             (case IMEncode env (Data request) of
                Inl err \<Rightarrow> Inl (''error encoding bmp '' @ err)
              | Inr bmp \<Rightarrow> Inr (cols, rows)))
      else Inr (w, h))"

text \<open>Lines 151 to 193: the first error met while the image is turned into a tensor.\<close>

definition tf_image_tensor :: "tf_env \<Rightarrow> string option" where
  "tf_image_tensor env =
     (case NewTensor env of
        Some err \<Rightarrow> Some (''could not create input tensor '' @ err)
      | None \<Rightarrow>
          (case image_NewSession env of
             Some err \<Rightarrow> Some (''could not create image session '' @ err)
           | None \<Rightarrow>
               (case image_Run env of
                  Some err \<Rightarrow> Some (''error converting image '' @ err)
                | None \<Rightarrow> None)))"

text \<open>Lines 223 to 226: the first row of each output.\<close>

definition tf_values ::
  "tf_output \<Rightarrow> go_panic + float32 list \<times> float32 list \<times> float32 list list \<times> float32" where
  "tf_values out =
     (case (index (detection_scores out) 0, index (detection_classes out) 0,
            index (detection_boxes out) 0, index (num_detections out) 0) of
        (Inr scores, Inr classes, Inr locations, Inr n) \<Rightarrow> Inr (scores, classes, locations, n)
      | _ \<Rightarrow> Inl IndexOutOfRange)"

text \<open>Lines 116 to 285, between taking the session and giving it back.\<close>

definition tf_body ::
  "platform \<Rightarrow> tf_env \<Rightarrow> tf_detector \<Rightarrow> DetectRequest \<Rightarrow> Session \<Rightarrow> tf_DetectResponse exit \<times> Session" where
  "tf_body pf env d request sess =
     (case DecodeConfig env (Data request) of
        Inl err \<Rightarrow> (Returns (error_response request (''Could not decode image: '' @ err)), sess)
      | Inr (w, h, imgType) \<Rightarrow>
          (case tf_convert env request w h imgType of
             Inl msg \<Rightarrow> (Returns (error_response request msg), sess)
           | Inr (imgWidth, imgHeight) \<Rightarrow>
               (case tf_image_tensor env of
                  Some msg \<Rightarrow> (Returns (error_response request msg), sess)
                | None \<Rightarrow>
                    (case sess_Run env of
                       Inl err \<Rightarrow>
                         (Returns (error_response request (''error running detection '' @ err)),
                          sess\<lparr>runs := runs sess + 1\<rparr>)
                     | Inr out \<Rightarrow>
                         (case tf_values out of
                            Inl pn \<Rightarrow> (Panics pn, sess\<lparr>runs := runs sess + 1\<rparr>)
                          | Inr (scores, classes, locations, n) \<Rightarrow>
                              (case tf_detections pf (tf_labels d) (Detect request) imgWidth imgHeight
                                      locations classes scores (float_to_int pf n) of
                                 Inl pn \<Rightarrow> (Panics pn, sess\<lparr>runs := runs sess + 1\<rparr>)
                               | Inr detections \<Rightarrow>
                                   (Returns \<lparr>tf_Id = Id request, tf_Detections = detections,
                                             tf_Error = []\<rparr>,
                                    sess\<lparr>runs := runs sess + 1\<rparr>)))))))"

definition tf_Detect ::
  "platform \<Rightarrow> tf_env \<Rightarrow> DetectRequest \<Rightarrow> tf_detector \<Rightarrow> tf_DetectResponse exit \<times> tf_detector" where
  "tf_Detect pf env request d =
     (case chan_recv (tf_pool d) of
        None \<Rightarrow> (Blocks, d)
      | Some (sess, p) \<Rightarrow>
          (case tf_body pf env d request sess of
             (r, sess') \<Rightarrow>
               (case chan_send sess' p of
                  None \<Rightarrow> (Blocks, d\<lparr>tf_pool := p\<rparr>)
                | Some p' \<Rightarrow> (r, d\<lparr>tf_pool := p'\<rparr>))))"

section \<open>Concurrent calls of Detect on one pool\<close>

text \<open>
  Each call of \<open>Detect\<close> in flight is pending, holds the worker it received from the
  pool, or has finished.  A step of the system is a step of one call: it receives a worker
  from the channel, or it ends without one (the tflite detector on an undecodable image),
  or it sends the worker it holds back and ends.
\<close>

datatype 'h call = Pending | Holding 'h | Finished

inductive step :: "'h chan \<times> 'h call list \<Rightarrow> 'h chan \<times> 'h call list \<Rightarrow> bool" where
  acquire: "i < length calls \<Longrightarrow> calls ! i = Pending \<Longrightarrow> chan_recv c = Some (h, c') \<Longrightarrow>
            step (c, calls) (c', calls[i := Holding h])"
| reject: "i < length calls \<Longrightarrow> calls ! i = Pending \<Longrightarrow>
           step (c, calls) (c, calls[i := Finished])"
| release: "i < length calls \<Longrightarrow> calls ! i = Holding h \<Longrightarrow> chan_send h c = Some c' \<Longrightarrow>
            step (c, calls) (c', calls[i := Finished])"

fun held :: "'h call list \<Rightarrow> 'h list" where
  "held [] = []"
| "held (Holding h # calls) = h # held calls"
| "held (other # calls) = held calls"

section \<open>Example detectors, requests and collaborators\<close>

text \<open>Concrete values on which the theorems below are run.\<close>

definition worker :: "nat \<Rightarrow> tflInterpreter" where
  "worker x = \<lparr>device = None, interpreter = x, input = [], invoked = 0\<rparr>"

definition example_detector :: "int \<Rightarrow> detector" where
  "example_detector tmo =
     \<lparr>config = \<lparr>cfg_Name = ''default'', cfg_Type = ''tflite'', cfg_Model = ''model.tflite'',
                 cfg_Labels = [''cat'', ''dog''], cfg_Width = 300, cfg_Height = 300,
                 cfg_Channels = 3\<rparr>,
       d_labels = [1 \<mapsto> ''cat'', 2 \<mapsto> ''dog''], inputType = UInt8,
       pool = \<lparr>buf = [worker 0, worker 1], cap = 2\<rparr>,
       devices = [], numThreads = 1, hwAccel = False, timeout = tmo\<rparr>"

definition idle :: process where
  "idle = \<lparr>Stop_count = 0, Stop_requested = False, running = 0\<rparr>"

definition no_ppm :: "8 word list \<Rightarrow> PPMInfo option" where
  "no_ppm data = None"

definition unknown_format :: "8 word list \<Rightarrow> string + Image" where
  "unknown_format data = Inl ''image: unknown format''"

definition black :: "int \<Rightarrow> int \<Rightarrow> 32 word \<times> 32 word \<times> 32 word" where
  "black x y = (0, 0, 0)"

definition decodes :: "8 word list \<Rightarrow> string + Image" where
  "decodes data = Inr \<lparr>img_Dx = 300, img_Dy = 300, img_At = black\<rparr>"

definition three_bytes :: "Image \<Rightarrow> go_panic + 8 word list" where
  "three_bytes img = Inr [0, 0, 0]"

definition example_env :: "(8 word list \<Rightarrow> string + Image) \<Rightarrow> invocation \<Rightarrow> detect_env" where
  "example_env dec w =
     \<lparr>FindPPMData = no_ppm, image_Decode = dec, repack = three_bytes, Invoke = w,
       select_tie = Complete, output_locations = [1/8, 1/8, 1/2, 1/2], output_classes = [1],
       output_scores = [7/10], output_count = [1]\<rparr>"

definition example_request :: DetectRequest where
  "example_request = \<lparr>Id = ''r1'', Data = [1, 2, 3], Detect = Map.empty\<rparr>"

definition tf_example_detector :: tf_detector where
  "tf_example_detector =
     \<lparr>tf_config = \<lparr>cfg_Name = ''default'', cfg_Type = ''tensorflow'', cfg_Model = ''model.pb'',
                    cfg_Labels = [''cat'', ''dog''], cfg_Width = - 1, cfg_Height = - 1,
                    cfg_Channels = 0\<rparr>,
       tf_labels = [1 \<mapsto> ''cat'', 2 \<mapsto> ''dog''],
       tf_pool = \<lparr>buf = [\<lparr>session = 0, runs = 0\<rparr>, \<lparr>session = 1, runs = 0\<rparr>], cap = 2\<rparr>\<rparr>"

definition no_config :: "8 word list \<Rightarrow> string + int \<times> int \<times> string" where
  "no_config data = Inl ''image: unknown format''"

definition png_config :: "8 word list \<Rightarrow> string + int \<times> int \<times> string" where
  "png_config data = Inr (200, 100, ''png'')"

definition no_gocv :: "8 word list \<Rightarrow> string + int \<times> int" where
  "no_gocv data = Inl ''empty Mat''"

definition no_bmp :: "8 word list \<Rightarrow> string + 8 word list" where
  "no_bmp data = Inl ''empty Mat''"

definition tf_example_env ::
  "(8 word list \<Rightarrow> string + int \<times> int \<times> string) \<Rightarrow> string + tf_output \<Rightarrow> tf_env" where
  "tf_example_env cfg out =
     \<lparr>DecodeConfig = cfg, IMDecode = no_gocv, IMEncode = no_bmp, NewTensor = None,
       image_NewSession = None, image_Run = None, sess_Run = out\<rparr>"

definition one_candidate :: tf_output where
  "one_candidate = \<lparr>detection_boxes = [[[1/8, 1/8, 1/2, 1/2]]], detection_scores = [[7/10]],
     detection_classes = [[1]], num_detections = [1]\<rparr>"

definition all_made :: "nat \<Rightarrow> bool" where
  "all_made x = True"

definition all_allocated :: "nat \<Rightarrow> Status" where
  "all_allocated x = OK"

definition second_fails :: "nat \<Rightarrow> bool" where
  "second_fails x = (x \<noteq> 1)"

definition dims300 :: "nat \<Rightarrow> int" where
  "dims300 k = (if k = 3 then 3 else 300)"

definition example_new_env :: "Device list \<Rightarrow> (nat \<Rightarrow> bool) \<Rightarrow> new_env" where
  "example_new_env devs made =
     \<lparr>NewModelFromFile = True, label_lines = Some [''cat'', ''dog''],
       DeviceList = Inr devs, edgetpu_New = all_made, NewInterpreter = made,
       AllocateTensors = all_allocated, input_Dim = dims300, input_Type = UInt8\<rparr>"

definition tf_example_new_env :: "(nat \<Rightarrow> bool) \<Rightarrow> tf_new_env" where
  "tf_example_new_env made =
     \<lparr>tf_label_lines = Some [''cat'', ''dog''], ReadFile = True, graph_Import = True,
       NewSession = made\<rparr>"

definition example_config :: "int \<Rightarrow> bool \<Rightarrow> int \<Rightarrow> DetectorConfig" where
  "example_config n hw tmo =
     \<lparr>Name = ''default'', Type = ''tflite'', ModelFile = ''model.tflite'', LabelFile = ''labels.txt'',
       NumThreads = 1, NumConcurrent = n, HWAccel = hw, Timeout = tmo\<rparr>"

definition edgetpu_detector :: detector where
  "edgetpu_detector =
     \<lparr>config = \<lparr>cfg_Name = ''default'', cfg_Type = ''tflite-edgetpu'', cfg_Model = ''model.tflite'',
                 cfg_Labels = [''cat'', ''dog''], cfg_Width = 300, cfg_Height = 300,
                 cfg_Channels = 3\<rparr>,
       d_labels = [1 \<mapsto> ''cat'', 2 \<mapsto> ''dog''], inputType = UInt8,
       pool = \<lparr>buf = [new_handle (Some 0) 0], cap = 1\<rparr>,
       devices = [''usb:0''], numThreads = 1, hwAccel = True, timeout = 30000000000\<rparr>"

section \<open>Properties of label loading\<close>

lemma space_width_le: "space_width s \<le> length s"
  by (induction s rule: space_width.induct) auto

lemma space_width_snoc_space:
  "s \<noteq> [] \<Longrightarrow> space_width (s @ [CHR '' '']) = space_width s"
  by (induction s rule: space_width.induct)
     (auto simp: space2_def space3_def e2_80_spaces_def)

lemma TrimLeftSpace_snoc_space:
  "TrimLeftSpace (s @ [CHR '' '']) = (if TrimLeftSpace s = [] then [] else TrimLeftSpace s @ [CHR '' ''])"
proof (induction s rule: TrimLeftSpace.induct)
  case 1
  show ?case by (simp add: asciiSpace_def)
next
  case (2 a s)
  have w: "space_width ((a # s) @ [CHR '' '']) = space_width (a # s)"
    by (rule space_width_snoc_space) simp
  show ?case
  proof (cases "space_width (a # s) = 0")
    case True
    then show ?thesis using w by simp
  next
    case False
    have le: "space_width (a # s) - 1 \<le> length s"
      using space_width_le[of "a # s"] by simp
    have "TrimLeftSpace ((a # s) @ [CHR '' '']) =
          TrimLeftSpace (drop (space_width (a # s) - 1) s @ [CHR '' ''])"
      using False w le by simp
    then show ?thesis using "2.IH"[OF False] False by simp
  qed
qed

lemma trim_rev_space: "trim_rev (CHR '' '' # s) = trim_rev s"
proof -
  have "last_space_width (CHR '' '' # s) = 1"
    by (cases s rule: last_space_width.cases) (auto simp: asciiSpace_def)
  then show ?thesis by simp
qed

lemma TrimSpace_snoc_space: "TrimSpace (s @ [CHR '' '']) = TrimSpace s"
  by (simp add: TrimSpace_def TrimRightSpace_def TrimLeftSpace_snoc_space trim_rev_space del: trim_rev.simps)

lemma label_line_spec:
  "label_line x text st =
     (case spec_entry x text of
        Some (k, v) \<Rightarrow> st\<lparr>labels := (labels st)(k \<mapsto> v), config_Labels := config_Labels st @ [v]\<rparr>
      | None \<Rightarrow> st)"
proof (cases "dropWhile (\<lambda>c. c \<noteq> CHR '' '') text")
  case Nil
  then have "CHR '' '' \<notin> set text" by (auto simp: dropWhile_eq_Nil_conv)
  then show ?thesis by (simp add: label_line_def SplitAfterN2_def spec_entry_def Nil)
next
  case (Cons c rest)
  have "\<not> (hd (dropWhile (\<lambda>c. c \<noteq> CHR '' '') text) \<noteq> CHR '' '')"
    by (rule hd_dropWhile) (simp add: Cons)
  then have c: "c = CHR '' ''" by (simp add: Cons)
  have "dropWhile (\<lambda>c. c \<noteq> CHR '' '') text \<noteq> []" by (simp add: Cons)
  then have m: "CHR '' '' \<in> set text" by (auto simp: dropWhile_eq_Nil_conv)
  show ?thesis
    by (simp add: label_line_def SplitAfterN2_def spec_entry_def Cons c m TrimSpace_snoc_space
        split: option.splits)
qed


lemma label_loop_spec:
  "labels (label_loop x lines st) = labels st ++ map_of (rev (spec_entries x lines)) \<and>
   config_Labels (label_loop x lines st) = config_Labels st @ map snd (spec_entries x lines)"
proof (induction lines arbitrary: x st)
  case Nil
  show ?case by simp
next
  case (Cons ln rest)
  show ?case
    by (cases "spec_entry x ln") (auto simp: Cons.IH label_line_spec map_add_upd_left fun_upd_def map_add_def split: option.splits)
qed


lemmas go_defs = load_labels_def label_line_def SplitAfterN2_def Atoi_def TrimSpace_def TrimRightSpace_def
  asciiSpace_def isDigit_def digitsValue_def space2_def space3_def e2_80_spaces_def

text \<open>
  Claim C5.  The label table is the table of the entries that the lines contribute, a
  later entry for an index replacing an earlier one: a bare line enters under its
  sequential index (its line number, from 1), an \<open><index> <label>\<close> line under its
  trimmed index with its trimmed label, and a line whose index is no integer enters
  nothing; loading is a total function, no line aborts it.  The lines \<open>1 cat\<close>,
  \<open>dog\<close>, \<open>x stale\<close> give the table \<open>{1: cat, 2: dog}\<close>.
\<close>

theorem load_labels_table:
  "labels (load_labels lines) = map_of (rev (spec_entries 1 lines)) \<and>
   config_Labels (load_labels lines) = map snd (spec_entries 1 lines) \<and>
   labels (load_labels [''1 cat'', ''dog'', ''x stale'']) = [1 \<mapsto> ''cat'', 2 \<mapsto> ''dog'']"
proof -
  have a: "labels (load_labels lines) = map_of (rev (spec_entries 1 lines))"
    and b: "config_Labels (load_labels lines) = map snd (spec_entries 1 lines)"
    using label_loop_spec[of 1 lines "\<lparr>labels = Map.empty, config_Labels = []\<rparr>"]
    by (simp_all add: load_labels_def)
  have c: "labels (load_labels [''1 cat'', ''dog'', ''x stale'']) = [1 \<mapsto> ''cat'', 2 \<mapsto> ''dog'']"
    by (simp add: go_defs)
  show ?thesis using a b c by blast
qed

text \<open>
  An explicit index out of sequence, a bare line, a bad index and a label with a space in
  it (read as a pair with the index \<open>traffic\<close>): the bare line has its line number 2.
\<close>

theorem load_labels_table_witness:
  "labels (load_labels [''3  bird '', ''dog'', ''x stale'', ''traffic light'']) =
     [3 \<mapsto> ''bird'', 2 \<mapsto> ''dog''] \<and>
   config_Labels (load_labels [''3  bird '', ''dog'', ''x stale'', ''traffic light'']) =
     [''bird'', ''dog'']"
proof -
  have e: "spec_entries 1 [''3  bird '', ''dog'', ''x stale'', ''traffic light''] =
           [(3, ''bird''), (2, ''dog'')]"
    by (simp add: spec_entry_def go_defs)
  show ?thesis
    using load_labels_table [of "[''3  bird '', ''dog'', ''x stale'', ''traffic light'']"]
    unfolding e by simp
qed

section \<open>Properties of the detection filter and mapper\<close>

lemma detections_loop_map_filter:
  "(\<And>j. i \<le> j \<Longrightarrow> j < cnt \<Longrightarrow> body j = Inr (r j)) \<Longrightarrow>
   detections_loop body cnt i acc = Inr (acc @ List.map_filter r [i..cnt - 1])"
proof (induction body cnt i acc rule: detections_loop.induct)
  case (1 body cnt i detections)
  show ?case
  proof (cases "i < cnt")
    case False
    then show ?thesis by (simp add: List.map_filter_simps)
  next
    case True
    have b: "body i = Inr (r i)" using "1.prems" True by simp
    have up: "[i..cnt - 1] = i # [i + 1..cnt - 1]" using True by (simp add: upto_rec1)
    show ?thesis
    proof (cases "r i")
      case None
      have "detections_loop body cnt (i + 1) detections = Inr (detections @ List.map_filter r [i + 1..cnt - 1])"
        using "1.IH"(1)[OF True b[unfolded None]] "1.prems" by simp
      then show ?thesis using True b None up
        by (subst detections_loop.simps) (simp add: List.map_filter_simps)
    next
      case (Some d)
      have "detections_loop body cnt (i + 1) (detections @ [d]) = Inr ((detections @ [d]) @ List.map_filter r [i + 1..cnt - 1])"
        using "1.IH"(2)[OF True b[unfolded Some]] "1.prems" by simp
      then show ?thesis using True b Some up
        by (subst detections_loop.simps) (simp add: List.map_filter_simps)
    qed
  qed
qed

lemma detections_loop_elems:
  "detections_loop body cnt i acc = Inr ds \<Longrightarrow> d \<in> set ds \<Longrightarrow>
   d \<in> set acc \<or> (\<exists>j. i \<le> j \<and> j < cnt \<and> body j = Inr (Some d))"
proof (induction body cnt i acc rule: detections_loop.induct)
  case (1 body cnt i detections)
  show ?case
  proof (cases "i < cnt")
    case False
    then show ?thesis using "1.prems" by (simp add: detections_loop.simps[of body cnt i])
  next
    case True
    show ?thesis
    proof (cases "body i")
      case (Inl p)
      then show ?thesis using "1.prems" True by (simp add: detections_loop.simps[of body cnt i])
    next
      case (Inr o1)
      show ?thesis
      proof (cases o1)
        case None
        have "detections_loop body cnt (i + 1) detections = Inr ds"
          using "1.prems"(1) True Inr None by (simp add: detections_loop.simps[of body cnt i])
        from "1.IH"(1)[OF True Inr None this "1.prems"(2)]
        have "d \<in> set detections \<or> (\<exists>j\<ge>i + 1. j < cnt \<and> body j = Inr (Some d))" .
        then show ?thesis by force
      next
        case (Some d')
        have "detections_loop body cnt (i + 1) (detections @ [d']) = Inr ds"
          using "1.prems"(1) True Inr Some by (simp add: detections_loop.simps[of body cnt i])
        from "1.IH"(2)[OF True Inr Some this "1.prems"(2)]
        have "d \<in> set detections \<or> d = d' \<or> (\<exists>j\<ge>i + 1. j < cnt \<and> body j = Inr (Some d))" by auto
        then show ?thesis using True Inr Some by force
      qed
    qed
  qed
qed

lemma filter_skip_spec:
  "0 \<le> i \<Longrightarrow> i < int (length scores) \<Longrightarrow>
   filter_skip detect label scores i = Inr (\<not> spec_accepts detect label (scores ! nat i))"
  by (auto simp: filter_skip_def spec_accepts_def index_def dom_def split: option.splits)

lemma tflite_candidate_spec:
  assumes "tflite_batch locations classes scores cnt" "0 \<le> j" "j < cnt"
  shows "tflite_candidate pf lbls detect locations classes scores j =
         Inr (if spec_accepts detect (candidate_label pf lbls classes j) (scores ! nat j)
              then Some (tflite_mapped pf lbls locations classes scores j) else None)"
proof -
  have r: "j < int (length classes)" "j < int (length scores)" "j * 4 + 3 < int (length locations)"
    using assms by (auto simp: tflite_batch_def)
  have i: "index classes j = Inr (classes ! nat j)" "index scores j = Inr (scores ! nat j)"
    "index locations (j * 4) = Inr (locations ! nat (j * 4))"
    "index locations (j * 4 + 1) = Inr (locations ! nat (j * 4 + 1))"
    "index locations (j * 4 + 2) = Inr (locations ! nat (j * 4 + 2))"
    "index locations (j * 4 + 3) = Inr (locations ! nat (j * 4 + 3))"
    using r assms(2) by (simp_all add: index_def)
  show ?thesis
    using assms(2) r(2)
    by (simp add: tflite_candidate_def i filter_skip_spec candidate_label_def tflite_mapped_def)
qed

lemma tf_candidate_spec:
  assumes "tf_batch locations classes scores cnt" "0 \<le> j" "j < cnt"
  shows "tf_candidate pf lbls detect imgWidth imgHeight locations classes scores j =
         Inr (if spec_accepts detect (candidate_label pf lbls classes j) (scores ! nat j)
              then Some (tf_mapped pf lbls imgWidth imgHeight locations classes scores j) else None)"
proof -
  have r: "j < int (length classes)" "j < int (length scores)" "j < int (length locations)"
    using assms by (auto simp: tf_batch_def)
  have "nat j < length (take (nat cnt) locations)" using assms r by simp
  then have "4 \<le> length (take (nat cnt) locations ! nat j)"
    using assms(1) unfolding tf_batch_def list_all_length by blast
  then have l4: "4 \<le> length (locations ! nat j)" using assms by simp
  have i: "index classes j = Inr (classes ! nat j)" "index scores j = Inr (scores ! nat j)"
    "index locations j = Inr (locations ! nat j)"
    using r assms(2) by (simp_all add: index_def)
  have k: "index (locations ! nat j) 0 = Inr (locations ! nat j ! 0)"
    "index (locations ! nat j) 1 = Inr (locations ! nat j ! 1)"
    "index (locations ! nat j) 2 = Inr (locations ! nat j ! 2)"
    "index (locations ! nat j) 3 = Inr (locations ! nat j ! 3)"
    using l4 by (auto simp: index_def)
  show ?thesis
    using assms(2) r(2)
    by (simp add: tf_candidate_def i k filter_skip_spec candidate_label_def tf_mapped_def)
qed

lemma map_filter_if:
  "List.map_filter (\<lambda>j. if P j then Some (f j) else None) xs = map f (filter P xs)"
  by (induction xs) (simp_all add: List.map_filter_simps)

lemma tflite_detections_filtered:
  assumes "tflite_batch locations classes scores cnt"
  shows "tflite_detections pf lbls detect locations classes scores cnt =
           Inr (map (tflite_mapped pf lbls locations classes scores)
                  (filter (\<lambda>j. spec_accepts detect (candidate_label pf lbls classes j) (scores ! nat j))
                     [0..cnt - 1]))"
proof -
  have "tflite_detections pf lbls detect locations classes scores cnt =
        Inr ([] @ List.map_filter (\<lambda>j. if spec_accepts detect (candidate_label pf lbls classes j) (scores ! nat j)
              then Some (tflite_mapped pf lbls locations classes scores j) else None) [0..cnt - 1])"
    unfolding tflite_detections_def
    by (rule detections_loop_map_filter) (rule tflite_candidate_spec[OF assms])
  then show ?thesis by (simp add: map_filter_if)
qed

lemma tf_detections_filtered:
  assumes "tf_batch locationsPx classes scores cnt"
  shows "tf_detections pf lbls detect imgWidth imgHeight locationsPx classes scores cnt =
           Inr (map (tf_mapped pf lbls imgWidth imgHeight locationsPx classes scores)
                  (filter (\<lambda>j. spec_accepts detect (candidate_label pf lbls classes j) (scores ! nat j))
                     [0..cnt - 1]))"
proof -
  have "tf_detections pf lbls detect imgWidth imgHeight locationsPx classes scores cnt =
        Inr ([] @ List.map_filter (\<lambda>j. if spec_accepts detect (candidate_label pf lbls classes j) (scores ! nat j)
              then Some (tf_mapped pf lbls imgWidth imgHeight locationsPx classes scores j) else None) [0..cnt - 1])"
    unfolding tf_detections_def
    by (rule detections_loop_map_filter) (rule tf_candidate_spec[OF assms])
  then show ?thesis by (simp add: map_filter_if)
qed

lemma upto_0_1: "[0..2 - 1] = [0, 1::int]"
  by (simp add: upto.simps)

lemmas eval_defs = tflite_detections_def tflite_candidate_def index_def filter_skip_def lookup_label_def
  float_to_int_def go_trunc_def tflite_detection_def tflite_cleanup_def
  tf_detections_def tf_candidate_def tf_detection_def tf_cleanup_def float_to_int32_def int_to_int32_def
  tflite_batch_def tf_batch_def spec_accepts_def candidate_label_def tflite_mapped_def tf_mapped_def
  amd64_def Let_def

text \<open>
  Claim C1.  In both detectors, on a batch whose arrays hold \<open>cnt\<close> candidates, the output
  is the list of the mapped candidates that \<open>spec_accepts\<close> lets through, in batch order:
  a candidate whose exact label is in the filter spec passes iff its score times 100 is
  at least that label's threshold; otherwise, with a wildcard entry, iff its score times
  100 is at least the wildcard threshold; otherwise it is rejected when the spec is
  non-empty and accepted when the spec is empty.  The exact label is looked up first.
\<close>

theorem filter_decision:
  assumes "tflite_batch locations classes scores cnt" and "tf_batch locationsPx classes scores cnt"
  shows "tflite_detections pf lbls detect locations classes scores cnt =
           Inr (map (tflite_mapped pf lbls locations classes scores)
                  (filter (\<lambda>j. spec_accepts detect (candidate_label pf lbls classes j) (scores ! nat j))
                     [0..cnt - 1])) \<and>
         tf_detections pf lbls detect imgWidth imgHeight locationsPx classes scores cnt =
           Inr (map (tf_mapped pf lbls imgWidth imgHeight locationsPx classes scores)
                  (filter (\<lambda>j. spec_accepts detect (candidate_label pf lbls classes j) (scores ! nat j))
                     [0..cnt - 1]))"
  using tflite_detections_filtered[OF assms(1)] tf_detections_filtered[OF assms(2)] by simp

text \<open>
  A batch of two: ``cat'' at 70 fails the wildcard threshold 80, ``dog'' at exactly 50
  meets its own threshold 50 although it is below the wildcard's.
\<close>

theorem filter_decision_witness:
  "tflite_batch [1/8, 1/8, 1/2, 1/2, 1/4, 1/4, 3/4, 3/4] [1, 2] [7/10, 1/2] 2 \<and>
   tf_batch [[1/8, 1/8, 1/2, 1/2], [1/4, 1/4, 3/4, 3/4]] [1, 2] [7/10, 1/2] 2 \<and>
   tflite_detections amd64 [1 \<mapsto> ''cat'', 2 \<mapsto> ''dog''] [''dog'' \<mapsto> 50, ''*'' \<mapsto> 80]
     [1/8, 1/8, 1/2, 1/2, 1/4, 1/4, 3/4, 3/4] [1, 2] [7/10, 1/2] 2 =
     Inr [\<lparr>Top = 1/4, Left = 1/4, Bottom = 3/4, Right = 3/4, Label = ''dog'', Confidence = 50\<rparr>] \<and>
   tf_detections amd64 [1 \<mapsto> ''cat'', 2 \<mapsto> ''dog''] [''dog'' \<mapsto> 50, ''*'' \<mapsto> 80] 200 100
     [[1/8, 1/8, 1/2, 1/2], [1/4, 1/4, 3/4, 3/4]] [1, 2] [7/10, 1/2] 2 =
     Inr [\<lparr>Y1 = 25, X1 = 50, Y2 = 75, X2 = 150, LabelPx = ''dog'', ConfidencePx = 50\<rparr>]"
proof -
  have h1: "tflite_batch [1/8, 1/8, 1/2, 1/2, 1/4, 1/4, 3/4, 3/4] [1, 2] [7/10, 1/2] 2"
    by (simp add: tflite_batch_def)
  have h2: "tf_batch [[1/8, 1/8, 1/2, 1/2], [1/4, 1/4, 3/4, 3/4]] [1, 2] [7/10, 1/2] 2"
    by (simp add: tf_batch_def)
  show ?thesis
    using h1 h2 filter_decision [OF h1 h2, of amd64 "[1 \<mapsto> ''cat'', 2 \<mapsto> ''dog'']"
        "[''dog'' \<mapsto> 50, ''*'' \<mapsto> 80]" 200 100]
    unfolding upto_0_1
    by (simp add: spec_accepts_def candidate_label_def tflite_mapped_def tf_mapped_def
        lookup_label_def float_to_int_def go_trunc_def tflite_detection_def tflite_cleanup_def
        tf_detection_def tf_cleanup_def float_to_int32_def int_to_int32_def)
qed

text \<open>
  Claim C2, as stated, fails: each coordinate is clipped on one side only.  A raw top
  edge of 1.5 and a raw bottom edge of -0.5 come out unchanged from the tflite detector,
  outside [0,1]; on a 200 by 100 image the tensorflow detector returns Y1 = 150, beyond
  the image height, and Y2 = -50.
\<close>

theorem box_domain_counterexample:
  "tflite_detections amd64 [1 \<mapsto> ''cat''] Map.empty [3/2, 1/4, - 1/2, 3/4] [1] [1/2] 1 =
     Inr [\<lparr>Top = 3/2, Left = 1/4, Bottom = - 1/2, Right = 3/4, Label = ''cat'', Confidence = 50\<rparr>] \<and>
   (1 :: real) < 3/2 \<and> (- 1/2 :: real) < 0 \<and>
   tf_detections amd64 [1 \<mapsto> ''cat''] Map.empty 200 100 [[3/2, 1/4, - 1/2, 3/4]] [1] [1/2] 1 =
     Inr [\<lparr>Y1 = 150, X1 = 50, Y2 = - 50, X2 = 150, LabelPx = ''cat'', ConfidencePx = 50\<rparr>] \<and>
   sint (int_to_int32 100) < sint (150 :: 32 word) \<and> sint (- 50 :: 32 word) < 0"
proof -
  have a: "tflite_detections amd64 [1 \<mapsto> ''cat''] Map.empty [3/2, 1/4, - 1/2, 3/4] [1] [1/2] 1 =
     Inr [\<lparr>Top = 3/2, Left = 1/4, Bottom = - 1/2, Right = 3/4, Label = ''cat'', Confidence = 50\<rparr>]"
    by (simp add: eval_defs detections_loop.simps)
  have b: "tf_detections amd64 [1 \<mapsto> ''cat''] Map.empty 200 100 [[3/2, 1/4, - 1/2, 3/4]] [1] [1/2] 1 =
     Inr [\<lparr>Y1 = 150, X1 = 50, Y2 = - 50, X2 = 150, LabelPx = ''cat'', ConfidencePx = 50\<rparr>]"
    by (simp add: eval_defs detections_loop.simps)
  have c: "(1 :: real) < 3/2" "(- 1/2 :: real) < 0" by simp_all
  have d: "sint (int_to_int32 100) < sint (150 :: 32 word)" "sint (- 50 :: 32 word) < 0"
    by (simp_all add: int_to_int32_def)
  show ?thesis using a b c d by blast
qed

text \<open>
  Claim C2, amended.  Every box in the output has a non-negative origin and an extent
  within the bound: \<open>Top\<close> and \<open>Left\<close> are at least 0 and \<open>Bottom\<close> and \<open>Right\<close> at
  most 1 in the tflite detector; \<open>Y1\<close> and \<open>X1\<close> are at least 0, \<open>Y2\<close> at most the
  image height and \<open>X2\<close> at most the image width (as \<open>int32\<close> values) in the tensorflow
  detector, whatever the raw model output.
\<close>

theorem box_origin_extent:
  "(tflite_detections pf lbls detect locations classes scores cnt = Inr ds \<longrightarrow>
      (\<forall>d \<in> set ds. 0 \<le> Top d \<and> 0 \<le> Left d \<and> Bottom d \<le> 1 \<and> Right d \<le> 1)) \<and>
   (tf_detections pf lbls detect imgWidth imgHeight locationsPx classes scores cnt = Inr dsPx \<longrightarrow>
      (\<forall>d \<in> set dsPx. 0 \<le> sint (Y1 d) \<and> 0 \<le> sint (X1 d) \<and>
         sint (Y2 d) \<le> sint (int_to_int32 imgHeight) \<and> sint (X2 d) \<le> sint (int_to_int32 imgWidth)))"
proof (rule conjI; (rule impI, rule ballI))
  fix d assume r: "tflite_detections pf lbls detect locations classes scores cnt = Inr ds" and d: "d \<in> set ds"
  from detections_loop_elems[OF r[unfolded tflite_detections_def] d]
  obtain j where "tflite_candidate pf lbls detect locations classes scores j = Inr (Some d)" by auto
  then obtain t l b r' lab s where "d = tflite_detection t l b r' lab s"
    by (auto simp: tflite_candidate_def Let_def split: sum.splits bool.splits prod.splits)
  then show "0 \<le> Top d \<and> 0 \<le> Left d \<and> Bottom d \<le> 1 \<and> Right d \<le> 1"
    by (simp add: tflite_detection_def tflite_cleanup_def Let_def)
next
  fix d assume r: "tf_detections pf lbls detect imgWidth imgHeight locationsPx classes scores cnt = Inr dsPx"
    and d: "d \<in> set dsPx"
  from detections_loop_elems[OF r[unfolded tf_detections_def] d]
  obtain j where "tf_candidate pf lbls detect imgWidth imgHeight locationsPx classes scores j = Inr (Some d)" by auto
  then obtain l0 l1 l2 l3 lab s where "d = tf_detection pf imgWidth imgHeight l0 l1 l2 l3 lab s"
    by (auto simp: tf_candidate_def Let_def split: sum.splits bool.splits prod.splits)
  then show "0 \<le> sint (Y1 d) \<and> 0 \<le> sint (X1 d) \<and>
         sint (Y2 d) \<le> sint (int_to_int32 imgHeight) \<and> sint (X2 d) \<le> sint (int_to_int32 imgWidth)"
    by (simp add: tf_detection_def tf_cleanup_def Let_def)
qed

text \<open>
  The amended claim on overshooting raw output: a negative top and left edge are raised
  to 0, a bottom and right edge beyond the bound are lowered to it.
\<close>

theorem box_origin_extent_witness:
  "tflite_detections amd64 [1 \<mapsto> ''cat''] Map.empty [- 1/4, - 1/2, 3/2, 5/4] [1] [1/2] 1 =
     Inr [\<lparr>Top = 0, Left = 0, Bottom = 1, Right = 1, Label = ''cat'', Confidence = 50\<rparr>] \<and>
   tf_detections amd64 [1 \<mapsto> ''cat''] Map.empty 200 100 [[- 1/4, - 1/2, 3/2, 5/4]] [1] [1/2] 1 =
     Inr [\<lparr>Y1 = 0, X1 = 0, Y2 = 100, X2 = 200, LabelPx = ''cat'', ConfidencePx = 50\<rparr>] \<and>
   0 \<le> Top \<lparr>Top = 0, Left = 0, Bottom = 1, Right = 1, Label = ''cat'', Confidence = 50\<rparr> \<and>
   Bottom \<lparr>Top = 0, Left = 0, Bottom = 1, Right = 1, Label = ''cat'', Confidence = 50\<rparr> \<le> 1 \<and>
   0 \<le> sint (Y1 \<lparr>Y1 = 0, X1 = 0, Y2 = 100, X2 = 200, LabelPx = ''cat'', ConfidencePx = 50\<rparr>) \<and>
   sint (Y2 \<lparr>Y1 = 0, X1 = 0, Y2 = 100, X2 = 200, LabelPx = ''cat'', ConfidencePx = 50\<rparr>)
     \<le> sint (int_to_int32 100)"
proof -
  have e1: "tflite_detections amd64 [1 \<mapsto> ''cat''] Map.empty [- 1/4, - 1/2, 3/2, 5/4] [1] [1/2] 1 =
     Inr [\<lparr>Top = 0, Left = 0, Bottom = 1, Right = 1, Label = ''cat'', Confidence = 50\<rparr>]"
    by (simp add: eval_defs detections_loop.simps)
  have e2: "tf_detections amd64 [1 \<mapsto> ''cat''] Map.empty 200 100 [[- 1/4, - 1/2, 3/2, 5/4]] [1] [1/2] 1 =
     Inr [\<lparr>Y1 = 0, X1 = 0, Y2 = 100, X2 = 200, LabelPx = ''cat'', ConfidencePx = 50\<rparr>]"
    by (simp add: eval_defs detections_loop.simps)
  note t = box_origin_extent [of amd64 "[1 \<mapsto> ''cat'']" Map.empty "[- 1/4, - 1/2, 3/2, 5/4]" "[1]" "[1/2]" 1
        "[\<lparr>Top = 0, Left = 0, Bottom = 1, Right = 1, Label = ''cat'', Confidence = 50\<rparr>]" 200 100
        "[[- 1/4, - 1/2, 3/2, 5/4]]"
        "[\<lparr>Y1 = 0, X1 = 0, Y2 = 100, X2 = 200, LabelPx = ''cat'', ConfidencePx = 50\<rparr>]"]
  have b1: "\<forall>d \<in> set [\<lparr>Top = 0, Left = 0, Bottom = 1, Right = 1, Label = ''cat'', Confidence = 50\<rparr>].
      0 \<le> Top d \<and> 0 \<le> Left d \<and> Bottom d \<le> 1 \<and> Right d \<le> 1"
    using t e1 by blast
  have b2: "\<forall>d \<in> set [\<lparr>Y1 = 0, X1 = 0, Y2 = 100, X2 = 200, LabelPx = ''cat'', ConfidencePx = 50\<rparr>].
      0 \<le> sint (Y1 d) \<and> 0 \<le> sint (X1 d) \<and>
      sint (Y2 d) \<le> sint (int_to_int32 100) \<and> sint (X2 d) \<le> sint (int_to_int32 200)"
    using t e2 by blast
  show ?thesis using e1 e2 b1 b2 by simp
qed

text \<open>
  Claim C8.  With an empty filter spec, on a batch whose arrays hold \<open>cnt\<close> candidates,
  both detectors return one detection per candidate, the \<open>k\<close>-th detection being the
  \<open>k\<close>-th candidate mapped (the batch order, no sorting), with the candidate's label
  and its raw score times 100 as confidence.
\<close>

theorem empty_filter_maps_all:
  assumes "tflite_batch locations classes scores cnt" and "tf_batch locationsPx classes scores cnt"
  shows "\<exists>ds dsPx.
           tflite_detections pf lbls Map.empty locations classes scores cnt = Inr ds \<and>
           tf_detections pf lbls Map.empty imgWidth imgHeight locationsPx classes scores cnt = Inr dsPx \<and>
           length ds = nat cnt \<and> length dsPx = nat cnt \<and>
           (\<forall>k < nat cnt.
              ds ! k = tflite_mapped pf lbls locations classes scores (int k) \<and>
              Label (ds ! k) = candidate_label pf lbls classes (int k) \<and>
              Confidence (ds ! k) = scores ! k * 100 \<and>
              dsPx ! k = tf_mapped pf lbls imgWidth imgHeight locationsPx classes scores (int k) \<and>
              LabelPx (dsPx ! k) = candidate_label pf lbls classes (int k) \<and>
              ConfidencePx (dsPx ! k) = scores ! k * 100)"
proof -
  let ?ds = "map (tflite_mapped pf lbls locations classes scores) [0..cnt - 1]"
  let ?dsPx = "map (tf_mapped pf lbls imgWidth imgHeight locationsPx classes scores) [0..cnt - 1]"
  have all: "filter (\<lambda>j. spec_accepts Map.empty (candidate_label pf lbls classes j) (scores ! nat j)) [0..cnt - 1]
             = [0..cnt - 1]"
    by (simp add: spec_accepts_def)
  have r1: "tflite_detections pf lbls Map.empty locations classes scores cnt = Inr ?ds"
    using tflite_detections_filtered[OF assms(1), of pf lbls Map.empty] by (simp only: all)
  have r2: "tf_detections pf lbls Map.empty imgWidth imgHeight locationsPx classes scores cnt = Inr ?dsPx"
    using tf_detections_filtered[OF assms(2), of pf lbls Map.empty imgWidth imgHeight] by (simp only: all)
  have len: "length [0..cnt - 1] = nat cnt" by simp
  have nth: "[0..cnt - 1] ! k = int k" if "k < nat cnt" for k
    using that by (simp add: nth_upto)
  have c1: "Confidence (tflite_mapped pf lbls locations classes scores (int k)) = scores ! k * 100"
    "Label (tflite_mapped pf lbls locations classes scores (int k)) = candidate_label pf lbls classes (int k)" for k
    by (simp_all add: tflite_mapped_def tflite_detection_def tflite_cleanup_def Let_def)
  have c2: "ConfidencePx (tf_mapped pf lbls imgWidth imgHeight locationsPx classes scores (int k)) = scores ! k * 100"
    "LabelPx (tf_mapped pf lbls imgWidth imgHeight locationsPx classes scores (int k)) = candidate_label pf lbls classes (int k)" for k
    by (simp_all add: tf_mapped_def tf_detection_def tf_cleanup_def Let_def)
  show ?thesis
    apply (rule exI[of _ ?ds], rule exI[of _ ?dsPx])
    using r1 r2 by (simp add: len nth c1 c2 del: length_upto)
qed

text \<open>Two candidates in, the same two out, in the same order.\<close>

theorem empty_filter_maps_all_witness:
  "tflite_batch [1/8, 1/8, 1/2, 1/2, 1/4, 1/4, 3/4, 3/4] [1, 2] [7/10, 1/2] 2 \<and>
   tf_batch [[1/8, 1/8, 1/2, 1/2], [1/4, 1/4, 3/4, 3/4]] [1, 2] [7/10, 1/2] 2 \<and>
   tflite_detections amd64 [1 \<mapsto> ''cat'', 2 \<mapsto> ''dog''] Map.empty
        [1/8, 1/8, 1/2, 1/2, 1/4, 1/4, 3/4, 3/4] [1, 2] [7/10, 1/2] 2 =
     Inr [\<lparr>Top = 1/8, Left = 1/8, Bottom = 1/2, Right = 1/2, Label = ''cat'', Confidence = 70\<rparr>,
          \<lparr>Top = 1/4, Left = 1/4, Bottom = 3/4, Right = 3/4, Label = ''dog'', Confidence = 50\<rparr>] \<and>
   tf_detections amd64 [1 \<mapsto> ''cat'', 2 \<mapsto> ''dog''] Map.empty 200 100
        [[1/8, 1/8, 1/2, 1/2], [1/4, 1/4, 3/4, 3/4]] [1, 2] [7/10, 1/2] 2 =
     Inr [\<lparr>Y1 = 12, X1 = 25, Y2 = 50, X2 = 100, LabelPx = ''cat'', ConfidencePx = 70\<rparr>,
          \<lparr>Y1 = 25, X1 = 50, Y2 = 75, X2 = 150, LabelPx = ''dog'', ConfidencePx = 50\<rparr>]"
proof -
  have h1: "tflite_batch [1/8, 1/8, 1/2, 1/2, 1/4, 1/4, 3/4, 3/4] [1, 2] [7/10, 1/2] 2"
    by (simp add: tflite_batch_def)
  have h2: "tf_batch [[1/8, 1/8, 1/2, 1/2], [1/4, 1/4, 3/4, 3/4]] [1, 2] [7/10, 1/2] 2"
    by (simp add: tf_batch_def)
  have l2: "length xs = nat 2 \<Longrightarrow> xs = [xs ! 0, xs ! 1]" for xs :: "'a list"
    by (cases xs; cases "tl xs"; auto)
  from empty_filter_maps_all [OF h1 h2, of amd64 "[1 \<mapsto> ''cat'', 2 \<mapsto> ''dog'']" 200 100]
  obtain ds dsPx where
    a: "tflite_detections amd64 [1 \<mapsto> ''cat'', 2 \<mapsto> ''dog''] Map.empty
        [1/8, 1/8, 1/2, 1/2, 1/4, 1/4, 3/4, 3/4] [1, 2] [7/10, 1/2] 2 = Inr ds"
    and b: "tf_detections amd64 [1 \<mapsto> ''cat'', 2 \<mapsto> ''dog''] Map.empty 200 100
        [[1/8, 1/8, 1/2, 1/2], [1/4, 1/4, 3/4, 3/4]] [1, 2] [7/10, 1/2] 2 = Inr dsPx"
    and c: "length ds = nat 2" "length dsPx = nat 2"
    and d: "\<forall>k < nat 2.
              ds ! k = tflite_mapped amd64 [1 \<mapsto> ''cat'', 2 \<mapsto> ''dog''] [1/8, 1/8, 1/2, 1/2, 1/4, 1/4, 3/4, 3/4] [1, 2] [7/10, 1/2] (int k) \<and>
              Label (ds ! k) = candidate_label amd64 [1 \<mapsto> ''cat'', 2 \<mapsto> ''dog''] [1, 2] (int k) \<and>
              Confidence (ds ! k) = [7/10, 1/2] ! k * 100 \<and>
              dsPx ! k = tf_mapped amd64 [1 \<mapsto> ''cat'', 2 \<mapsto> ''dog''] 200 100 [[1/8, 1/8, 1/2, 1/2], [1/4, 1/4, 3/4, 3/4]] [1, 2] [7/10, 1/2] (int k) \<and>
              LabelPx (dsPx ! k) = candidate_label amd64 [1 \<mapsto> ''cat'', 2 \<mapsto> ''dog''] [1, 2] (int k) \<and>
              ConfidencePx (dsPx ! k) = [7/10, 1/2] ! k * 100"
    by (elim exE conjE) 
  have d0: "ds ! 0 = tflite_mapped amd64 [1 \<mapsto> ''cat'', 2 \<mapsto> ''dog''] [1/8, 1/8, 1/2, 1/2, 1/4, 1/4, 3/4, 3/4] [1, 2] [7/10, 1/2] 0"
    and p0: "dsPx ! 0 = tf_mapped amd64 [1 \<mapsto> ''cat'', 2 \<mapsto> ''dog''] 200 100 [[1/8, 1/8, 1/2, 1/2], [1/4, 1/4, 3/4, 3/4]] [1, 2] [7/10, 1/2] 0"
    using d[rule_format, of 0] by simp_all
  have d1: "ds ! 1 = tflite_mapped amd64 [1 \<mapsto> ''cat'', 2 \<mapsto> ''dog''] [1/8, 1/8, 1/2, 1/2, 1/4, 1/4, 3/4, 3/4] [1, 2] [7/10, 1/2] 1"
    and p1: "dsPx ! 1 = tf_mapped amd64 [1 \<mapsto> ''cat'', 2 \<mapsto> ''dog''] 200 100 [[1/8, 1/8, 1/2, 1/2], [1/4, 1/4, 3/4, 3/4]] [1, 2] [7/10, 1/2] 1"
    using d[rule_format, of 1] by simp_all
  have m0: "tflite_mapped amd64 [1 \<mapsto> ''cat'', 2 \<mapsto> ''dog''] [1/8, 1/8, 1/2, 1/2, 1/4, 1/4, 3/4, 3/4] [1, 2] [7/10, 1/2] 0
     = \<lparr>Top = 1/8, Left = 1/8, Bottom = 1/2, Right = 1/2, Label = ''cat'', Confidence = 70\<rparr>"
    by (simp add: eval_defs)
  have m1: "tflite_mapped amd64 [1 \<mapsto> ''cat'', 2 \<mapsto> ''dog''] [1/8, 1/8, 1/2, 1/2, 1/4, 1/4, 3/4, 3/4] [1, 2] [7/10, 1/2] 1
     = \<lparr>Top = 1/4, Left = 1/4, Bottom = 3/4, Right = 3/4, Label = ''dog'', Confidence = 50\<rparr>"
    by (simp add: eval_defs)
  have q0: "tf_mapped amd64 [1 \<mapsto> ''cat'', 2 \<mapsto> ''dog''] 200 100 [[1/8, 1/8, 1/2, 1/2], [1/4, 1/4, 3/4, 3/4]] [1, 2] [7/10, 1/2] 0
     = \<lparr>Y1 = 12, X1 = 25, Y2 = 50, X2 = 100, LabelPx = ''cat'', ConfidencePx = 70\<rparr>"
    by (simp add: eval_defs)
  have q1: "tf_mapped amd64 [1 \<mapsto> ''cat'', 2 \<mapsto> ''dog''] 200 100 [[1/8, 1/8, 1/2, 1/2], [1/4, 1/4, 3/4, 3/4]] [1, 2] [7/10, 1/2] 1
     = \<lparr>Y1 = 25, X1 = 50, Y2 = 75, X2 = 150, LabelPx = ''dog'', ConfidencePx = 50\<rparr>"
    by (simp add: eval_defs)
  have ds: "ds = [ds ! 0, ds ! 1]" by (rule l2[OF c(1)])
  have dsPx: "dsPx = [dsPx ! 0, dsPx ! 1]" by (rule l2[OF c(2)])
  have A: "tflite_detections amd64 [1 \<mapsto> ''cat'', 2 \<mapsto> ''dog''] Map.empty
        [1/8, 1/8, 1/2, 1/2, 1/4, 1/4, 3/4, 3/4] [1, 2] [7/10, 1/2] 2 =
     Inr [\<lparr>Top = 1/8, Left = 1/8, Bottom = 1/2, Right = 1/2, Label = ''cat'', Confidence = 70\<rparr>,
          \<lparr>Top = 1/4, Left = 1/4, Bottom = 3/4, Right = 3/4, Label = ''dog'', Confidence = 50\<rparr>]"
    unfolding a by (subst ds) (simp only: d0 d1 m0 m1)
  have B: "tf_detections amd64 [1 \<mapsto> ''cat'', 2 \<mapsto> ''dog''] Map.empty 200 100
        [[1/8, 1/8, 1/2, 1/2], [1/4, 1/4, 3/4, 3/4]] [1, 2] [7/10, 1/2] 2 =
     Inr [\<lparr>Y1 = 12, X1 = 25, Y2 = 50, X2 = 100, LabelPx = ''cat'', ConfidencePx = 70\<rparr>,
          \<lparr>Y1 = 25, X1 = 50, Y2 = 75, X2 = 150, LabelPx = ''dog'', ConfidencePx = 50\<rparr>]"
    unfolding b by (subst dsPx) (simp only: p0 p1 q0 q1)
  show ?thesis using h1 h2 A B by (intro conjI)
qed

section \<open>Properties of Detect\<close>

lemma recv_then_send:
  assumes "chan_recv c = Some (h, p)" and "length (buf c) \<le> cap c"
  shows "buf c = h # buf p" and "cap p = cap c" and "chan_send h' p = Some (p\<lparr>buf := buf p @ [h']\<rparr>)"
  using assms by (auto simp: chan_recv_def chan_send_def split: list.splits)

lemma tflite_exit_sends:
  assumes "chan_recv (pool d) = Some (h0, p)" and "length (buf (pool d)) \<le> cap (pool d)"
  shows "tflite_exit r h (d\<lparr>pool := p\<rparr>, proc) =
           (r, d\<lparr>pool := p\<lparr>buf := buf p @ [h]\<rparr>\<rparr>, Stop_Done proc)"
  using recv_then_send(3)[OF assms, of h]
  by (simp add: tflite_exit_def tflite_deferred_def)


lemma tflite_Detect_timer:
  assumes "tflite_input env (fst st) request = Returns (Inr data)"
    and "chan_recv (pool (fst st)) = Some (h0, p)"
    and "length (buf (pool (fst st))) \<le> cap (pool (fst st))"
    and "0 < timeout (fst st)"
    and "select_complete_or_timer (timeout (fst st)) (Invoke env) (select_tie env) = TimerFired"
  shows "tflite_Detect pf env request st =
           (Returns (Inl (Internal, ''detect failed'')),
            (fst st)\<lparr>pool := p\<lparr>buf := buf p @ [h0\<lparr>input := data, invoked := invoked h0 + 1\<rparr>]\<rparr>\<rparr>,
            Stop_Done ((Stop_Stop (Stop_Add 1 (snd st)))\<lparr>running := running (snd st) + 1\<rparr>))"
  using assms(1,2,4,5) tflite_exit_sends[OF assms(2,3)]
  by (simp add: tflite_Detect_def Let_def Stop_Add_def)

lemma tflite_Detect_hangs:
  assumes "tflite_input env (fst st) request = Returns (Inr data)"
    and "chan_recv (pool (fst st)) = Some (h0, p)"
    and "timeout (fst st) \<le> 0"
    and "Invoke env = Hangs"
  shows "tflite_Detect pf env request st =
           (Blocks, (fst st)\<lparr>pool := p\<rparr>, (Stop_Add 1 (snd st))\<lparr>running := running (snd st) + 1\<rparr>)"
  using assms by (simp add: tflite_Detect_def Let_def Stop_Add_def)

lemma tflite_Detect_completes:
  assumes "tflite_input env (fst st) request = Returns (Inr data)"
    and "chan_recv (pool (fst st)) = Some (h0, p)"
    and "length (buf (pool (fst st))) \<le> cap (pool (fst st))"
    and "\<not> (0 < timeout (fst st) \<and>
            select_complete_or_timer (timeout (fst st)) (Invoke env) (select_tie env) = TimerFired)"
    and "Invoke env = Completes t status"
  shows "tflite_Detect pf env request st =
           (tflite_outcome pf env (fst st) request,
            (fst st)\<lparr>pool := p\<lparr>buf := buf p @ [h0\<lparr>input := data, invoked := invoked h0 + 1\<rparr>]\<rparr>\<rparr>,
            Stop_Done (Stop_Add 1 (snd st)))"
proof -
  note e = tflite_exit_sends[OF assms(2,3)]
  show ?thesis
    using assms(1,2,4,5)
    by (auto simp: tflite_Detect_def Let_def e)
qed

lemma length_CopyToBuffer: "length (CopyToBuffer tensor n) = n"
  by (simp add: CopyToBuffer_def)

lemma tflite_results_batch:
  "tflite_results pf env = Inr (locations, classes, scores, cnt) \<Longrightarrow>
   tflite_batch locations classes scores cnt"
  by (auto simp: tflite_results_def tflite_batch_def length_CopyToBuffer Let_def split: if_splits)

lemma tflite_outcome_cases:
  "tflite_outcome pf env d request \<noteq> Blocks \<and>
   (\<forall>c m. tflite_outcome pf env d request \<noteq> Returns (Inl (c, m)))"
  by (auto simp: tflite_outcome_def split: sum.splits prod.splits)

lemmas example_defs = worker_def example_detector_def idle_def no_ppm_def unknown_format_def
  decodes_def three_bytes_def example_env_def example_request_def tf_example_detector_def
  no_config_def png_config_def no_gocv_def no_bmp_def tf_example_env_def one_candidate_def
  all_made_def all_allocated_def second_fails_def dims300_def example_new_env_def
  tf_example_new_env_def example_config_def


lemma example_input:
  "tflite_input (example_env decodes w) (fst (example_detector tmo, idle)) example_request = Returns (Inr [0, 0, 0])"
  by (simp add: tflite_input_def ppm_match_def decode_image_def example_defs)

lemma example_recv:
  "chan_recv (pool (fst (example_detector tmo, idle))) = Some (worker 0, \<lparr>buf = [worker 1], cap = 2\<rparr>)"
  by (simp add: chan_recv_def example_detector_def)

lemma example_cap:
  "length (buf (pool (fst (example_detector tmo, idle)))) \<le> cap (pool (fst (example_detector tmo, idle)))"
  by (simp add: example_detector_def)

lemma example_outcome:
  "tflite_outcome amd64 (example_env decodes w) (example_detector tmo) example_request =
     Returns (Inr \<lparr>resp_Id = ''r1'', Detections =
       [\<lparr>Top = 1/8, Left = 1/8, Bottom = 1/2, Right = 1/2, Label = ''cat'', Confidence = 70\<rparr>]\<rparr>)"
  by (simp add: tflite_outcome_def tflite_results_def CopyToBuffer_def example_defs eval_defs
      detections_loop.simps)


text \<open>
  Claim C7.  A request whose image cannot be decoded gets an error back and leaves the
  workers alone.  The tflite detector returns an \<open>InvalidArgument\<close> error before it
  touches the pool: detector and process state are unchanged.  The tensorflow detector,
  given a worker, returns a response that carries the decode error; the worker it took is
  put back as it was (no \<open>Run\<close> on it), so the pool holds the same sessions as before.
\<close>

theorem undecodable_image:
  assumes "ppm_match env (fst st) request = None"
    and "image_Decode env (Data request) = Inl err"
    and "DecodeConfig tenv (Data request) = Inl terr"
    and "chan_recv (tf_pool d) = Some (sess, p)"
    and "length (buf (tf_pool d)) \<le> cap (tf_pool d)"
  shows "tflite_Detect pf env request st =
           (Returns (Inl (InvalidArgument, ''could not decode image: '' @ err)), st) \<and>
         tf_Detect pf tenv request d =
           (Returns (error_response request (''Could not decode image: '' @ terr)),
            d\<lparr>tf_pool := p\<lparr>buf := buf p @ [sess]\<rparr>\<rparr>) \<and>
         buf (tf_pool d) = sess # buf p \<and>
         mset (buf p @ [sess]) = mset (buf (tf_pool d)) \<and>
         length (buf p @ [sess]) = length (buf (tf_pool d))"
proof -
  have a: "tflite_Detect pf env request st =
           (Returns (Inl (InvalidArgument, ''could not decode image: '' @ err)), st)"
    using assms(1,2) by (simp add: tflite_Detect_def tflite_input_def decode_image_def)
  have b: "tf_body pf tenv d request sess =
           (Returns (error_response request (''Could not decode image: '' @ terr)), sess)"
    using assms(3) by (simp add: tf_body_def)
  have c: "tf_Detect pf tenv request d =
           (Returns (error_response request (''Could not decode image: '' @ terr)),
            d\<lparr>tf_pool := p\<lparr>buf := buf p @ [sess]\<rparr>\<rparr>)"
    using assms(4) b recv_then_send(3)[OF assms(4,5), of sess]
    by (simp add: tf_Detect_def)
  have e: "buf (tf_pool d) = sess # buf p" by (rule recv_then_send(1)[OF assms(4,5)])
  show ?thesis using a c e by simp
qed

text \<open>An unknown format, on a tflite detector and a tensorflow detector with two workers each.\<close>

theorem undecodable_image_witness:
  "ppm_match (example_env unknown_format (Completes 1000 OK)) (fst (example_detector 0, idle)) example_request = None \<and>
   image_Decode (example_env unknown_format (Completes 1000 OK)) (Data example_request) = Inl ''image: unknown format'' \<and>
   DecodeConfig (tf_example_env no_config (Inr one_candidate)) (Data example_request) = Inl ''image: unknown format'' \<and>
   chan_recv (tf_pool tf_example_detector) = Some (\<lparr>session = 0, runs = 0\<rparr>, \<lparr>buf = [\<lparr>session = 1, runs = 0\<rparr>], cap = 2\<rparr>) \<and>
   length (buf (tf_pool tf_example_detector)) \<le> cap (tf_pool tf_example_detector) \<and>
   tflite_Detect amd64 (example_env unknown_format (Completes 1000 OK)) example_request (example_detector 0, idle) =
     (Returns (Inl (InvalidArgument, ''could not decode image: image: unknown format'')), example_detector 0, idle) \<and>
   tf_Detect amd64 (tf_example_env no_config (Inr one_candidate)) example_request tf_example_detector =
     (Returns \<lparr>tf_Id = ''r1'', tf_Detections = [], tf_Error = ''Could not decode image: image: unknown format''\<rparr>,
      tf_example_detector\<lparr>tf_pool := \<lparr>buf = [\<lparr>session = 1, runs = 0\<rparr>, \<lparr>session = 0, runs = 0\<rparr>], cap = 2\<rparr>\<rparr>)"
proof -
  have h1: "ppm_match (example_env unknown_format (Completes 1000 OK)) (fst (example_detector 0, idle)) example_request = None"
    by (simp add: ppm_match_def example_defs)
  have h2: "image_Decode (example_env unknown_format (Completes 1000 OK)) (Data example_request) = Inl ''image: unknown format''"
    by (simp add: example_defs)
  have h3: "DecodeConfig (tf_example_env no_config (Inr one_candidate)) (Data example_request) = Inl ''image: unknown format''"
    by (simp add: example_defs)
  have h4: "chan_recv (tf_pool tf_example_detector) = Some (\<lparr>session = 0, runs = 0\<rparr>, \<lparr>buf = [\<lparr>session = 1, runs = 0\<rparr>], cap = 2\<rparr>)"
    by (simp add: chan_recv_def example_defs)
  have h5: "length (buf (tf_pool tf_example_detector)) \<le> cap (tf_pool tf_example_detector)"
    by (simp add: example_defs)
  note t = undecodable_image [OF h1 h2 h3 h4 h5, of amd64]
  have a: "tflite_Detect amd64 (example_env unknown_format (Completes 1000 OK)) example_request (example_detector 0, idle) =
     (Returns (Inl (InvalidArgument, ''could not decode image: image: unknown format'')), example_detector 0, idle)"
    using t by simp
  have b: "tf_Detect amd64 (tf_example_env no_config (Inr one_candidate)) example_request tf_example_detector =
     (Returns \<lparr>tf_Id = ''r1'', tf_Detections = [], tf_Error = ''Could not decode image: image: unknown format''\<rparr>,
      tf_example_detector\<lparr>tf_pool := \<lparr>buf = [\<lparr>session = 1, runs = 0\<rparr>, \<lparr>session = 0, runs = 0\<rparr>], cap = 2\<rparr>\<rparr>)"
    using t by (simp add: error_response_def example_request_def)
  show ?thesis using h1 h2 h3 h4 h5 a b by (intro conjI)
qed

text \<open>
  Claim C4.  On a call that has its input and its worker: with a positive timeout, when
  the timer fires before \<open>Invoke\<close> completes, \<open>Detect\<close> returns an \<open>Internal\<close> error,
  the process-wide stop is requested and the goroutine inside \<open>Invoke\<close> is left
  running; with no timeout, \<open>Detect\<close> never returns if \<open>Invoke\<close> never does, and
  whenever \<open>Invoke\<close> completes, however late, \<open>Detect\<close> goes on to the worker's
  results, requests no stop and leaves no goroutine behind.
\<close>

theorem timeout_or_wait:
  assumes "tflite_input env (fst st) request = Returns (Inr data)"
    and "chan_recv (pool (fst st)) = Some (h0, p)"
    and "length (buf (pool (fst st))) \<le> cap (pool (fst st))"
  shows "(0 < timeout (fst st) \<and>
          select_complete_or_timer (timeout (fst st)) (Invoke env) (select_tie env) = TimerFired \<longrightarrow>
            fst (tflite_Detect pf env request st) = Returns (Inl (Internal, ''detect failed'')) \<and>
            Stop_requested (snd (snd (tflite_Detect pf env request st))) \<and>
            running (snd (snd (tflite_Detect pf env request st))) = running (snd st) + 1) \<and>
         (timeout (fst st) \<le> 0 \<longrightarrow>
            (Invoke env = Hangs \<longrightarrow> fst (tflite_Detect pf env request st) = Blocks) \<and>
            (\<forall>t status. Invoke env = Completes t status \<longrightarrow>
               fst (tflite_Detect pf env request st) = tflite_outcome pf env (fst st) request \<and>
               fst (tflite_Detect pf env request st) \<noteq> Blocks \<and>
               Stop_requested (snd (snd (tflite_Detect pf env request st))) = Stop_requested (snd st) \<and>
               running (snd (snd (tflite_Detect pf env request st))) = running (snd st)))"
proof (intro conjI impI allI)
  assume a: "0 < timeout (fst st) \<and>
          select_complete_or_timer (timeout (fst st)) (Invoke env) (select_tie env) = TimerFired"
  note t = tflite_Detect_timer[OF assms, of pf] 
  show "fst (tflite_Detect pf env request st) = Returns (Inl (Internal, ''detect failed''))"
    using t a by simp
  show "Stop_requested (snd (snd (tflite_Detect pf env request st)))"
    using t a by (simp add: Stop_Done_def Stop_Stop_def Stop_Add_def)
  show "running (snd (snd (tflite_Detect pf env request st))) = running (snd st) + 1"
    using t a by (simp add: Stop_Done_def Stop_Stop_def Stop_Add_def)
next
  assume "timeout (fst st) \<le> 0" "Invoke env = Hangs"
  then show "fst (tflite_Detect pf env request st) = Blocks"
    using tflite_Detect_hangs[OF assms(1,2), of pf] by simp
next
  fix t status
  assume b: "timeout (fst st) \<le> 0" "Invoke env = Completes t status"
  then have n: "\<not> (0 < timeout (fst st) \<and>
            select_complete_or_timer (timeout (fst st)) (Invoke env) (select_tie env) = TimerFired)"
    by simp
  note c = tflite_Detect_completes[OF assms n b(2), of pf]
  show "fst (tflite_Detect pf env request st) = tflite_outcome pf env (fst st) request"
    using c by simp
  then show "fst (tflite_Detect pf env request st) \<noteq> Blocks"
    using tflite_outcome_cases[of pf env "fst st" request] by simp
  show "Stop_requested (snd (snd (tflite_Detect pf env request st))) = Stop_requested (snd st)"
    using c by (simp add: Stop_Done_def Stop_Add_def)
  show "running (snd (snd (tflite_Detect pf env request st))) = running (snd st)"
    using c by (simp add: Stop_Done_def Stop_Add_def)
qed


text \<open>
  A worker that hangs, with a timeout of 50 ms and with none; and a worker that takes 90
  seconds with no timeout.
\<close>

theorem timeout_or_wait_witness:
  "tflite_input (example_env decodes Hangs) (fst (example_detector 50000000, idle)) example_request = Returns (Inr [0, 0, 0]) \<and>
   chan_recv (pool (fst (example_detector 50000000, idle))) = Some (worker 0, \<lparr>buf = [worker 1], cap = 2\<rparr>) \<and>
   length (buf (pool (fst (example_detector 50000000, idle)))) \<le> cap (pool (fst (example_detector 50000000, idle))) \<and>
   0 < timeout (fst (example_detector 50000000, idle)) \<and>
   select_complete_or_timer (timeout (fst (example_detector 50000000, idle))) (Invoke (example_env decodes Hangs))
     (select_tie (example_env decodes Hangs)) = TimerFired \<and>
   fst (tflite_Detect amd64 (example_env decodes Hangs) example_request (example_detector 50000000, idle)) =
     Returns (Inl (Internal, ''detect failed'')) \<and>
   Stop_requested (snd (snd (tflite_Detect amd64 (example_env decodes Hangs) example_request (example_detector 50000000, idle)))) \<and>
   running (snd (snd (tflite_Detect amd64 (example_env decodes Hangs) example_request (example_detector 50000000, idle)))) = 1 \<and>
   timeout (fst (example_detector 0, idle)) \<le> 0 \<and>
   fst (tflite_Detect amd64 (example_env decodes Hangs) example_request (example_detector 0, idle)) = Blocks \<and>
   fst (tflite_Detect amd64 (example_env decodes (Completes 90000000000 OK)) example_request (example_detector 0, idle)) =
     Returns (Inr \<lparr>resp_Id = ''r1'', Detections =
       [\<lparr>Top = 1/8, Left = 1/8, Bottom = 1/2, Right = 1/2, Label = ''cat'', Confidence = 70\<rparr>]\<rparr>)"
proof -
  have s: "0 < timeout (fst (example_detector 50000000, idle))"
    "select_complete_or_timer (timeout (fst (example_detector 50000000, idle))) (Invoke (example_env decodes Hangs))
       (select_tie (example_env decodes Hangs)) = TimerFired"
    by (simp_all add: select_complete_or_timer_def example_defs)
  have z: "timeout (fst (example_detector 0, idle)) \<le> 0" by (simp add: example_detector_def)
  have i1: "Invoke (example_env decodes Hangs) = Hangs"
    and i2: "Invoke (example_env decodes (Completes 90000000000 OK)) = Completes 90000000000 OK"
    by (simp_all add: example_env_def)
  note t1 = timeout_or_wait [OF example_input[of Hangs 50000000] example_recv[of 50000000] example_cap[of 50000000], of amd64]
  note t2 = timeout_or_wait [OF example_input[of Hangs 0] example_recv[of 0] example_cap[of 0], of amd64]
  note t3 = timeout_or_wait [OF example_input[of "Completes 90000000000 OK" 0] example_recv[of 0] example_cap[of 0], of amd64]
  have a: "fst (tflite_Detect amd64 (example_env decodes Hangs) example_request (example_detector 50000000, idle)) =
     Returns (Inl (Internal, ''detect failed''))"
    "Stop_requested (snd (snd (tflite_Detect amd64 (example_env decodes Hangs) example_request (example_detector 50000000, idle))))"
    "running (snd (snd (tflite_Detect amd64 (example_env decodes Hangs) example_request (example_detector 50000000, idle)))) = 1"
    using t1 s by (simp_all add: idle_def)
  have b: "fst (tflite_Detect amd64 (example_env decodes Hangs) example_request (example_detector 0, idle)) = Blocks"
    using t2 z i1 by blast
  have c: "fst (tflite_Detect amd64 (example_env decodes (Completes 90000000000 OK)) example_request (example_detector 0, idle)) =
     Returns (Inr \<lparr>resp_Id = ''r1'', Detections =
       [\<lparr>Top = 1/8, Left = 1/8, Bottom = 1/2, Right = 1/2, Label = ''cat'', Confidence = 70\<rparr>]\<rparr>)"
    using t3 z i2 example_outcome[of "Completes 90000000000 OK" 0] by simp
  show ?thesis
    using example_input[of Hangs 50000000] example_recv[of 50000000] example_cap[of 50000000] s z a b c
    by (intro conjI)
qed
section \<open>The worker is given back\<close>

lemma tflite_Detect_released:
  assumes "tflite_input env (fst st) request = Returns (Inr data)"
    and "chan_recv (pool (fst st)) = Some (h0, p)"
    and "length (buf (pool (fst st))) \<le> cap (pool (fst st))"
    and "\<not> (timeout (fst st) \<le> 0 \<and> Invoke env = Hangs)"
  shows "fst (tflite_Detect pf env request st) \<noteq> Blocks \<and>
         pool (fst (snd (tflite_Detect pf env request st))) =
           p\<lparr>buf := buf p @ [h0\<lparr>input := data, invoked := invoked h0 + 1\<rparr>]\<rparr> \<and>
         Stop_count (snd (snd (tflite_Detect pf env request st))) = Stop_count (snd st)"
proof (cases "0 < timeout (fst st) \<and>
    select_complete_or_timer (timeout (fst st)) (Invoke env) (select_tie env) = TimerFired")
  case True
  then show ?thesis
    using tflite_Detect_timer[OF assms(1,2,3), of pf]
    by (simp add: Stop_Done_def Stop_Stop_def Stop_Add_def)
next
  case False
  have "Invoke env \<noteq> Hangs"
  proof
    assume h: "Invoke env = Hangs"
    then have "0 < timeout (fst st)" using assms(4) by simp
    then show False using False h by (simp add: select_complete_or_timer_def)
  qed
  then obtain t status where c: "Invoke env = Completes t status" by (cases "Invoke env") auto
  show ?thesis
    using tflite_Detect_completes[OF assms(1,2,3) False c, of pf]
      tflite_outcome_cases[of pf env "fst st" request]
    by (simp add: Stop_Done_def Stop_Add_def)
qed

lemma tf_body_exits:
  "fst (tf_body pf env d request sess) \<noteq> Blocks \<and>
   session (snd (tf_body pf env d request sess)) = session sess"
  by (auto simp: tf_body_def split: sum.splits prod.splits option.splits)

lemma tf_Detect_released:
  assumes "chan_recv (tf_pool d) = Some (sess, p)"
    and "length (buf (tf_pool d)) \<le> cap (tf_pool d)"
  shows "fst (tf_Detect pf env request d) \<noteq> Blocks \<and>
         tf_pool (snd (tf_Detect pf env request d)) =
           p\<lparr>buf := buf p @ [snd (tf_body pf env d request sess)]\<rparr> \<and>
         session (snd (tf_body pf env d request sess)) = session sess"
proof -
  obtain r sess' where b: "tf_body pf env d request sess = (r, sess')"
    by (cases "tf_body pf env d request sess")
  have r: "r \<noteq> Blocks" "session sess' = session sess"
    using tf_body_exits[of pf env d request sess] b by simp_all
  show ?thesis
    using assms(1) b r recv_then_send(3)[OF assms, of sess']
    by (simp add: tf_Detect_def)
qed

lemma held_update_pending:
  "i < length calls \<Longrightarrow> calls ! i = Pending \<Longrightarrow>
   mset (held (calls[i := Holding h])) = mset (held calls) + {#h#} \<and>
   held (calls[i := Finished]) = held calls"
proof (induction calls arbitrary: i)
  case Nil
  then show ?case by simp
next
  case (Cons a calls)
  show ?case
  proof (cases i)
    case 0
    then show ?thesis using Cons.prems by simp
  next
    case (Suc j)
    then show ?thesis using Cons.prems Cons.IH[of j] by (cases a) simp_all
  qed
qed

lemma held_update_holding:
  "i < length calls \<Longrightarrow> calls ! i = Holding h \<Longrightarrow>
   mset (held calls) = mset (held (calls[i := Finished])) + {#h#}"
proof (induction calls arbitrary: i)
  case Nil
  then show ?case by simp
next
  case (Cons a calls)
  show ?case
  proof (cases i)
    case 0
    then show ?thesis using Cons.prems by simp
  next
    case (Suc j)
    then show ?thesis using Cons.prems Cons.IH[of j] by (cases a) simp_all
  qed
qed

lemma step_preserves:
  assumes "step s s'"
  shows "mset (buf (fst s')) + mset (held (snd s')) = mset (buf (fst s)) + mset (held (snd s)) \<and>
         cap (fst s') = cap (fst s)"
  using assms
proof (cases rule: step.cases)
  case (acquire i calls c h c')
  then show ?thesis
    using held_update_pending[of i calls h]
    by (auto simp: chan_recv_def split: list.splits)
next
  case (reject i calls c)
  then show ?thesis using held_update_pending[of i calls] by simp
next
  case (release i calls h c c')
  then show ?thesis
    using held_update_holding[of i calls h]
    by (auto simp: chan_send_def split: if_splits)
qed

lemma steps_preserve:
  assumes "step\<^sup>*\<^sup>* s s'"
  shows "mset (buf (fst s')) + mset (held (snd s')) = mset (buf (fst s)) + mset (held (snd s)) \<and>
         cap (fst s') = cap (fst s)"
  using assms
proof (induction rule: rtranclp_induct)
  case base
  show ?case by simp
next
  case (step y z)
  then show ?case using step_preserves[of y z] by simp
qed

lemma held_finished: "list_all (\<lambda>k. k = Finished) calls \<Longrightarrow> held calls = []"
  by (induction calls) auto

lemma held_pending: "held (replicate n Pending) = []"
  by (induction n) auto

text \<open>
  Claim C3.  A call of \<open>Detect\<close> that has received a worker and ends (by a response, by
  the timeout error, by an error of the inference, or by a panic) has sent that worker
  back to the pool once: the pool is what was left after the receive, with the worker
  appended, and the stop counter is back at its value.  This holds of the tflite
  detector on every path but the wait for an \<open>Invoke\<close> that never returns with no
  timeout set, where the call does not end, and of the tensorflow detector on every path.
  Consequently, after any interleaving of the receives and sends of \<open>n\<close> calls that have
  all finished, the pool holds exactly the workers it held at the start.
\<close>

theorem worker_released:
  "(tflite_input env (fst st) request = Returns (Inr data) \<and>
    chan_recv (pool (fst st)) = Some (h0, p) \<and>
    length (buf (pool (fst st))) \<le> cap (pool (fst st)) \<and>
    \<not> (timeout (fst st) \<le> 0 \<and> Invoke env = Hangs) \<longrightarrow>
      fst (tflite_Detect pf env request st) \<noteq> Blocks \<and>
      pool (fst (snd (tflite_Detect pf env request st))) =
        p\<lparr>buf := buf p @ [h0\<lparr>input := data, invoked := invoked h0 + 1\<rparr>]\<rparr> \<and>
      Stop_count (snd (snd (tflite_Detect pf env request st))) = Stop_count (snd st)) \<and>
   (chan_recv (tf_pool d) = Some (sess, q) \<and> length (buf (tf_pool d)) \<le> cap (tf_pool d) \<longrightarrow>
      fst (tf_Detect pf tenv request d) \<noteq> Blocks \<and>
      tf_pool (snd (tf_Detect pf tenv request d)) =
        q\<lparr>buf := buf q @ [snd (tf_body pf tenv d request sess)]\<rparr> \<and>
      session (snd (tf_body pf tenv d request sess)) = session sess) \<and>
   (step\<^sup>*\<^sup>* (c0, replicate n Pending) (c, calls) \<and> list_all (\<lambda>k. k = Finished) calls \<longrightarrow>
      mset (buf c) = mset (buf c0) \<and> length (buf c) = length (buf c0) \<and> cap c = cap c0)"
proof (intro conjI impI)
  assume a: "tflite_input env (fst st) request = Returns (Inr data) \<and>
    chan_recv (pool (fst st)) = Some (h0, p) \<and>
    length (buf (pool (fst st))) \<le> cap (pool (fst st)) \<and>
    \<not> (timeout (fst st) \<le> 0 \<and> Invoke env = Hangs)"
  note r = tflite_Detect_released[of env st request data h0 p pf]
  show "fst (tflite_Detect pf env request st) \<noteq> Blocks" using r a by blast
  show "pool (fst (snd (tflite_Detect pf env request st))) =
        p\<lparr>buf := buf p @ [h0\<lparr>input := data, invoked := invoked h0 + 1\<rparr>]\<rparr>" using r a by blast
  show "Stop_count (snd (snd (tflite_Detect pf env request st))) = Stop_count (snd st)" using r a by blast
next
  assume b: "chan_recv (tf_pool d) = Some (sess, q) \<and> length (buf (tf_pool d)) \<le> cap (tf_pool d)"
  note r = tf_Detect_released[of d sess q pf tenv request]
  show "fst (tf_Detect pf tenv request d) \<noteq> Blocks" using r b by blast
  show "tf_pool (snd (tf_Detect pf tenv request d)) =
        q\<lparr>buf := buf q @ [snd (tf_body pf tenv d request sess)]\<rparr>" using r b by blast
  show "session (snd (tf_body pf tenv d request sess)) = session sess" using r b by blast
next
  assume c: "step\<^sup>*\<^sup>* (c0, replicate n Pending) (c, calls) \<and> list_all (\<lambda>k. k = Finished) calls"
  have "mset (buf c) + mset (held calls) = mset (buf c0) + mset (held (replicate n Pending)) \<and>
        cap c = cap c0"
    using steps_preserve[of "(c0, replicate n Pending)" "(c, calls)"] c by simp
  then have m: "mset (buf c) = mset (buf c0)" and k: "cap c = cap c0"
    using c by (simp_all add: held_finished held_pending)
  show "mset (buf c) = mset (buf c0)" by (rule m)
  show "length (buf c) = length (buf c0)" using m by (rule mset_eq_length)
  show "cap c = cap c0" by (rule k)
qed


lemma two_calls_run:
  "step\<^sup>*\<^sup>* (\<lparr>buf = [0, 1 :: nat], cap = 2\<rparr>, replicate 2 Pending)
          (\<lparr>buf = [1, 0], cap = 2\<rparr>, [Finished, Finished])"
proof -
  have r: "replicate 2 Pending = [Pending, Pending :: nat call]" by (simp add: numeral_2_eq_2)
  have s1: "step (\<lparr>buf = [0, 1 :: nat], cap = 2\<rparr>, [Pending, Pending])
                 (\<lparr>buf = [1], cap = 2\<rparr>, [Pending, Pending][0 := Holding 0])"
    by (rule step.acquire) (simp_all add: chan_recv_def)
  have s2: "step (\<lparr>buf = [1 :: nat], cap = 2\<rparr>, [Holding 0, Pending])
                 (\<lparr>buf = [], cap = 2\<rparr>, [Holding 0, Pending][1 := Holding 1])"
    by (rule step.acquire) (simp_all add: chan_recv_def)
  have s3: "step (\<lparr>buf = [] :: nat list, cap = 2\<rparr>, [Holding 0, Holding 1])
                 (\<lparr>buf = [1], cap = 2\<rparr>, [Holding 0, Holding 1][1 := Finished])"
    by (rule step.release[where h = 1]) (simp_all add: chan_send_def)
  have s4: "step (\<lparr>buf = [1 :: nat], cap = 2\<rparr>, [Holding 0, Finished])
                 (\<lparr>buf = [1, 0], cap = 2\<rparr>, [Holding 0, Finished][0 := Finished])"
    by (rule step.release[where h = 0]) (simp_all add: chan_send_def)
  from s1 s2 s3 s4 show ?thesis unfolding r by simp
qed

lemma example_tf_recv:
  "chan_recv (tf_pool tf_example_detector) =
     Some (\<lparr>session = 0, runs = 0\<rparr>, \<lparr>buf = [\<lparr>session = 1, runs = 0\<rparr>], cap = 2\<rparr>)"
  by (simp add: chan_recv_def tf_example_detector_def)

lemma example_tf_cap:
  "length (buf (tf_pool tf_example_detector)) \<le> cap (tf_pool tf_example_detector)"
  by (simp add: tf_example_detector_def)


text \<open>
  The timeout path of the tflite detector, the inference error path of the tensorflow
  detector, and two calls interleaved on a pool of two workers.
\<close>

theorem worker_released_witness:
  "tflite_input (example_env decodes Hangs) (fst (example_detector 50000000, idle)) example_request = Returns (Inr [0, 0, 0]) \<and>
   chan_recv (pool (fst (example_detector 50000000, idle))) = Some (worker 0, \<lparr>buf = [worker 1], cap = 2\<rparr>) \<and>
   length (buf (pool (fst (example_detector 50000000, idle)))) \<le> cap (pool (fst (example_detector 50000000, idle))) \<and>
   \<not> (timeout (fst (example_detector 50000000, idle)) \<le> 0 \<and> Invoke (example_env decodes Hangs) = Hangs) \<and>
   fst (tflite_Detect amd64 (example_env decodes Hangs) example_request (example_detector 50000000, idle)) \<noteq> Blocks \<and>
   pool (fst (snd (tflite_Detect amd64 (example_env decodes Hangs) example_request (example_detector 50000000, idle)))) =
     \<lparr>buf = [worker 1, \<lparr>device = None, interpreter = 0, input = [0, 0, 0], invoked = 1\<rparr>], cap = 2\<rparr> \<and>
   Stop_count (snd (snd (tflite_Detect amd64 (example_env decodes Hangs) example_request (example_detector 50000000, idle)))) = 0 \<and>
   chan_recv (tf_pool tf_example_detector) =
     Some (\<lparr>session = 0, runs = 0\<rparr>, \<lparr>buf = [\<lparr>session = 1, runs = 0\<rparr>], cap = 2\<rparr>) \<and>
   length (buf (tf_pool tf_example_detector)) \<le> cap (tf_pool tf_example_detector) \<and>
   fst (tf_Detect amd64 (tf_example_env png_config (Inl ''graph error'')) example_request tf_example_detector) \<noteq> Blocks \<and>
   tf_pool (snd (tf_Detect amd64 (tf_example_env png_config (Inl ''graph error'')) example_request tf_example_detector)) =
     \<lparr>buf = [\<lparr>session = 1, runs = 0\<rparr>, \<lparr>session = 0, runs = 1\<rparr>], cap = 2\<rparr> \<and>
   step\<^sup>*\<^sup>* (\<lparr>buf = [0, 1 :: nat], cap = 2\<rparr>, replicate 2 Pending) (\<lparr>buf = [1, 0], cap = 2\<rparr>, [Finished, Finished]) \<and>
   list_all (\<lambda>k. k = Finished) [Finished, Finished :: nat call] \<and>
   mset (buf \<lparr>buf = [1, 0 :: nat], cap = 2\<rparr>) = mset (buf \<lparr>buf = [0, 1 :: nat], cap = 2\<rparr>) \<and>
   length (buf \<lparr>buf = [1, 0 :: nat], cap = 2\<rparr>) = length (buf \<lparr>buf = [0, 1 :: nat], cap = 2\<rparr>)"
proof -
  have n: "\<not> (timeout (fst (example_detector 50000000, idle)) \<le> 0 \<and> Invoke (example_env decodes Hangs) = Hangs)"
    by (simp add: example_detector_def)
  have f: "list_all (\<lambda>k. k = Finished) [Finished, Finished :: nat call]" by simp
  note t = worker_released [of "example_env decodes Hangs" "(example_detector 50000000, idle)" example_request
      "[0, 0, 0]" "worker 0" "\<lparr>buf = [worker 1], cap = 2\<rparr>" amd64
      tf_example_detector "\<lparr>session = 0, runs = 0\<rparr>" "\<lparr>buf = [\<lparr>session = 1, runs = 0\<rparr>], cap = 2\<rparr>"
      "tf_example_env png_config (Inl ''graph error'')"
      "\<lparr>buf = [0, 1 :: nat], cap = 2\<rparr>" 2 "\<lparr>buf = [1, 0], cap = 2\<rparr>" "[Finished, Finished]"]
  have a: "fst (tflite_Detect amd64 (example_env decodes Hangs) example_request (example_detector 50000000, idle)) \<noteq> Blocks"
    and b: "pool (fst (snd (tflite_Detect amd64 (example_env decodes Hangs) example_request (example_detector 50000000, idle)))) =
        \<lparr>buf = [worker 1], cap = 2\<rparr>\<lparr>buf := buf \<lparr>buf = [worker 1], cap = 2\<rparr> @ [(worker 0)\<lparr>input := [0, 0, 0], invoked := invoked (worker 0) + 1\<rparr>]\<rparr>"
    and c: "Stop_count (snd (snd (tflite_Detect amd64 (example_env decodes Hangs) example_request (example_detector 50000000, idle)))) = Stop_count (snd (example_detector 50000000, idle))"
    using t example_input[of Hangs 50000000] example_recv[of 50000000] example_cap[of 50000000] n by blast+
  have d: "fst (tf_Detect amd64 (tf_example_env png_config (Inl ''graph error'')) example_request tf_example_detector) \<noteq> Blocks"
    and e: "tf_pool (snd (tf_Detect amd64 (tf_example_env png_config (Inl ''graph error'')) example_request tf_example_detector)) =
        \<lparr>buf = [\<lparr>session = 1, runs = 0\<rparr>], cap = 2\<rparr>\<lparr>buf := buf \<lparr>buf = [\<lparr>session = 1, runs = 0\<rparr>], cap = 2\<rparr> @
          [snd (tf_body amd64 (tf_example_env png_config (Inl ''graph error'')) tf_example_detector example_request \<lparr>session = 0, runs = 0\<rparr>)]\<rparr>"
    using t example_tf_recv example_tf_cap by blast+
  have g: "mset (buf \<lparr>buf = [1, 0 :: nat], cap = 2\<rparr>) = mset (buf \<lparr>buf = [0, 1 :: nat], cap = 2\<rparr>)"
    and h: "length (buf \<lparr>buf = [1, 0 :: nat], cap = 2\<rparr>) = length (buf \<lparr>buf = [0, 1 :: nat], cap = 2\<rparr>)"
    using t two_calls_run f by blast+
  have body: "snd (tf_body amd64 (tf_example_env png_config (Inl ''graph error'')) tf_example_detector example_request \<lparr>session = 0, runs = 0\<rparr>)
      = \<lparr>session = 0, runs = 1\<rparr>"
    by (simp add: tf_body_def tf_convert_def tf_image_tensor_def example_defs)
  have b': "pool (fst (snd (tflite_Detect amd64 (example_env decodes Hangs) example_request (example_detector 50000000, idle)))) =
     \<lparr>buf = [worker 1, \<lparr>device = None, interpreter = 0, input = [0, 0, 0], invoked = 1\<rparr>], cap = 2\<rparr>"
    unfolding b by (simp add: worker_def)
  have c': "Stop_count (snd (snd (tflite_Detect amd64 (example_env decodes Hangs) example_request (example_detector 50000000, idle)))) = 0"
    unfolding c by (simp add: idle_def)
  have e': "tf_pool (snd (tf_Detect amd64 (tf_example_env png_config (Inl ''graph error'')) example_request tf_example_detector)) =
     \<lparr>buf = [\<lparr>session = 1, runs = 0\<rparr>, \<lparr>session = 0, runs = 1\<rparr>], cap = 2\<rparr>"
    unfolding e body by simp
  show ?thesis
    using example_input[of Hangs 50000000] example_recv[of 50000000] example_cap[of 50000000] n a b' c'
      example_tf_recv example_tf_cap d e' two_calls_run f g h
    by (intro conjI)
qed
section \<open>Properties of New\<close>

lemma newInterpreter_slot:
  "newInterpreter env x dev live = (Inr i, live') \<Longrightarrow> i = x \<and> live' = live @ [x]"
  by (auto simp: newInterpreter_def split: if_splits)

lemma pool_loop_returns:
  "pool_loop env hw ndev n x p cur live = (Returns (Inr (p', cur')), live') \<Longrightarrow> 0 \<le> x \<Longrightarrow>
   p' = p\<lparr>buf := buf p @ map (\<lambda>j. new_handle (if hw then Some j else None) j) [nat x..<nat n]\<rparr> \<and>
   live' = live @ [nat x..<nat n] \<and>
   (x < n \<longrightarrow> length (buf p') \<le> cap p')"
proof (induction env hw ndev n x p cur live rule: pool_loop.induct)
  case (1 env hw ndev n x p cur live)
  show ?case
  proof (cases "x < n")
    case False
    then show ?thesis using "1.prems" by (simp add: pool_loop.simps[of env hw ndev n x])
  next
    case True
    have ok: "\<not> (hw \<and> \<not> nat x < ndev)"
      using "1.prems" True by (auto simp: pool_loop.simps[of env hw ndev n x] split: if_splits)
    let ?dev = "if hw then Some (nat x) else None"
    obtain r l1 where ni: "newInterpreter env (nat x) ?dev live = (r, l1)"
      by (cases "newInterpreter env (nat x) ?dev live")
    obtain i where r: "r = Inr i"
      using "1.prems" True ok ni
      by (cases r) (auto simp: pool_loop.simps[of env hw ndev n x] Let_def)
    have il: "i = nat x" "l1 = live @ [nat x]" using newInterpreter_slot[OF ni[unfolded r]] by simp_all
    obtain p1 where snd: "chan_send (new_handle ?dev i) p = Some p1"
      using "1.prems" True ok ni r
      by (cases "chan_send (new_handle ?dev i) p") (auto simp: pool_loop.simps[of env hw ndev n x] Let_def)
    have rec: "pool_loop env hw ndev n (x + 1) p1 (Some (new_handle ?dev i)) l1 = (Returns (Inr (p', cur')), live')"
      using "1.prems" True ok ni r snd by (simp add: pool_loop.simps[of env hw ndev n x] Let_def)
    have p1: "p1 = p\<lparr>buf := buf p @ [new_handle ?dev i]\<rparr>" "length (buf p) < cap p"
      using snd by (auto simp: chan_send_def split: if_splits)
    have ih: "p' = p1\<lparr>buf := buf p1 @ map (\<lambda>j. new_handle (if hw then Some j else None) j) [nat (x + 1)..<nat n]\<rparr> \<and>
       live' = l1 @ [nat (x + 1)..<nat n] \<and>
       (x + 1 < n \<longrightarrow> length (buf p') \<le> cap p')"
    proof -
      have "0 \<le> x + 1" using "1.prems"(2) by simp
      from "1.IH"[OF True ok refl ni[symmetric] r snd rec this] show ?thesis .
    qed
    have up: "[nat x..<nat n] = nat x # [nat (x + 1)..<nat n]"
      using True "1.prems"(2) by (simp add: upt_conv_Cons nat_add_distrib)
    have last: "\<not> x + 1 < n \<Longrightarrow> [nat (x + 1)..<nat n] = []" using True by simp
    show ?thesis
      using ih p1 il up last by (cases "x + 1 < n") (auto simp: il)
  qed
qed

lemma use_edgetpu_hw:
  assumes "use_edgetpu env d0 n0 = Inr (d, n)" and "hwAccel d0"
  shows "hwAccel d" and "0 < n" and "n = int (length (devices d))" and "pool d = pool d0"
    and "timeout d = (if timeout d0 = 0 then 30 * 1000000000 else timeout d0)"
  using assms by (auto simp: use_edgetpu_def split: sum.splits if_splits)

lemma tflite_New_returns:
  assumes "tflite_New env c = (Returns (Inr dt), live)"
  obtains lines d n p h where "label_lines env = Some lines"
    and "use_edgetpu env (new_detector c (load_labels lines)) (NumConcurrent c) = Inr (d, n)"
    and "pool_loop env (hwAccel d) (length (devices d)) n 0 (pool d) None [] = (Returns (Inr (p, Some h)), live)"
    and "dt = input_settings env d p"
proof -
  have g: "\<not> NumConcurrent c < 0" "NewModelFromFile env"
    using assms by (auto simp: tflite_New_def split: if_splits)
  obtain lines where l: "label_lines env = Some lines"
    using assms g by (cases "label_lines env") (auto simp: tflite_New_def)
  obtain d n where u: "use_edgetpu env (new_detector c (load_labels lines)) (NumConcurrent c) = Inr (d, n)"
    using assms g l
    by (cases "use_edgetpu env (new_detector c (load_labels lines)) (NumConcurrent c)")
       (auto simp: tflite_New_def)
  obtain r live1 where pl: "pool_loop env (hwAccel d) (length (devices d)) n 0 (pool d) None [] = (r, live1)"
    by (cases "pool_loop env (hwAccel d) (length (devices d)) n 0 (pool d) None []")
  have n: "tflite_New env c =
      (case (r, live1) of
         (Returns (Inl err), live) \<Rightarrow> (Returns (Inl err), live)
       | (Panics pn, live) \<Rightarrow> (Panics pn, live)
       | (Blocks, live) \<Rightarrow> (Blocks, live)
       | (Returns (Inr (p, None)), live) \<Rightarrow> (Panics NilDereference, live)
       | (Returns (Inr (p, Some h)), live) \<Rightarrow>
           (if input_Type env \<noteq> UInt8 then (Returns (Inl UnsupportedInputType), live)
            else (Returns (Inr (input_settings env d p)), live)))"
    using g l u pl by (simp add: tflite_New_def)
  obtain p h where r: "r = Returns (Inr (p, Some h))" and lv: "live1 = live"
    and dt: "dt = input_settings env d p"
    using assms unfolding n
    by (cases r) (auto split: sum.splits option.splits if_splits)
  show ?thesis using that[OF l u pl[unfolded r lv] dt] .
qed

lemma tflite_input_pool: "tflite_input env (d\<lparr>pool := q\<rparr>) request = tflite_input env d request"
  by (simp add: tflite_input_def ppm_match_def split: option.splits)


text \<open>
  Claim C10.  When \<open>New\<close> succeeds with hardware acceleration and a configured timeout
  of zero, the detector's timeout is 30 seconds and its pool is not empty; from then on,
  whatever the pool holds, a call of \<open>Detect\<close> that has its input and a worker never
  waits for ever: it ends, and on a worker that hangs it ends with the \<open>Internal\<close>
  error of the timer.
\<close>

theorem edgetpu_timeout_enforced:
  assumes "HWAccel c" and "Timeout c = 0" and "tflite_New nenv c = (Returns (Inr d), live)"
    and "tflite_input env d request = Returns (Inr data)"
    and "chan_recv q = Some (h0, p)" and "length (buf q) \<le> cap q"
  shows "timeout d = 30 * 1000000000 \<and>
         buf (pool d) \<noteq> [] \<and> length (buf (pool d)) \<le> cap (pool d) \<and>
         fst (tflite_Detect pf env request (d\<lparr>pool := q\<rparr>, proc)) \<noteq> Blocks \<and>
         (Invoke env = Hangs \<longrightarrow>
            fst (tflite_Detect pf env request (d\<lparr>pool := q\<rparr>, proc)) =
              Returns (Inl (Internal, ''detect failed'')))"
proof -
  from tflite_New_returns[OF assms(3)]
  obtain lines d1 n p1 h where l: "label_lines nenv = Some lines"
    and u: "use_edgetpu nenv (new_detector c (load_labels lines)) (NumConcurrent c) = Inr (d1, n)"
    and pl: "pool_loop nenv (hwAccel d1) (length (devices d1)) n 0 (pool d1) None [] = (Returns (Inr (p1, Some h)), live)"
    and d: "d = input_settings nenv d1 p1"
    by blast
  have hw0: "hwAccel (new_detector c (load_labels lines))" using assms(1) by (simp add: new_detector_def)
  have t0: "timeout (new_detector c (load_labels lines)) = 0" using assms(2) by (simp add: new_detector_def)
  note e = use_edgetpu_hw[OF u hw0]
  have tmo: "timeout d = 30 * 1000000000" using e(5) t0 d by (simp add: input_settings_def)
  have r: "p1 = (pool d1)\<lparr>buf := buf (pool d1) @
        map (\<lambda>j. new_handle (if hwAccel d1 then Some j else None) j) [nat 0..<nat n]\<rparr>"
    and r2: "0 < n \<longrightarrow> length (buf p1) \<le> cap p1"
    using pool_loop_returns[OF pl order_refl] by blast+
  have n0: "0 < n" by (rule e(2))
  then have "[nat 0..<nat n] \<noteq> []" by simp
  then have ne: "buf p1 \<noteq> []" unfolding r by simp
  have le: "length (buf p1) \<le> cap p1" using r2 n0 by blast
  have pd: "pool d = p1" using d by (simp add: input_settings_def)
  let ?st = "(d\<lparr>pool := q\<rparr>, proc)"
  have i: "tflite_input env (fst ?st) request = Returns (Inr data)"
    using assms(4) by (simp add: tflite_input_pool)
  have rc: "chan_recv (pool (fst ?st)) = Some (h0, p)" using assms(5) by simp
  have cp: "length (buf (pool (fst ?st))) \<le> cap (pool (fst ?st))" using assms(6) by simp
  have pos: "0 < timeout (fst ?st)" using tmo by simp
  have nb: "\<not> (timeout (fst ?st) \<le> 0 \<and> Invoke env = Hangs)" using pos by simp
  have a: "fst (tflite_Detect pf env request ?st) \<noteq> Blocks"
    using tflite_Detect_released[OF i rc cp nb, of pf] by simp
  have b: "fst (tflite_Detect pf env request ?st) = Returns (Inl (Internal, ''detect failed''))"
    if "Invoke env = Hangs"
  proof -
    have "select_complete_or_timer (timeout (fst ?st)) (Invoke env) (select_tie env) = TimerFired"
      using that by (simp add: select_complete_or_timer_def)
    from tflite_Detect_timer[OF i rc cp pos this, of pf] show ?thesis by simp
  qed
  show ?thesis using tmo ne le pd a b by simp
qed

lemmas new_defs = tflite_New_def new_detector_def input_settings_def use_edgetpu_def newInterpreter_def
  new_handle_def chan_send_def chan_recv_def int_to_int32_def Let_def

lemma example_edgetpu_New:
  "tflite_New (example_new_env [''usb:0''] all_made) (example_config 1 True 0) =
     (Returns (Inr edgetpu_detector), [0])"
  by (simp add: new_defs example_defs edgetpu_detector_def go_defs pool_loop.simps)


text \<open>One device, no timeout configured, and a worker that hangs.\<close>

theorem edgetpu_timeout_enforced_witness:
  "HWAccel (example_config 1 True 0) \<and> Timeout (example_config 1 True 0) = 0 \<and>
   tflite_New (example_new_env [''usb:0''] all_made) (example_config 1 True 0) =
     (Returns (Inr edgetpu_detector), [0]) \<and>
   tflite_input (example_env decodes Hangs) edgetpu_detector example_request = Returns (Inr [0, 0, 0]) \<and>
   chan_recv (pool edgetpu_detector) = Some (new_handle (Some 0) 0, \<lparr>buf = [], cap = 1\<rparr>) \<and>
   length (buf (pool edgetpu_detector)) \<le> cap (pool edgetpu_detector) \<and>
   timeout edgetpu_detector = 30 * 1000000000 \<and>
   fst (tflite_Detect amd64 (example_env decodes Hangs) example_request
          (edgetpu_detector\<lparr>pool := pool edgetpu_detector\<rparr>, idle)) =
     Returns (Inl (Internal, ''detect failed''))"
proof -
  have h1: "HWAccel (example_config 1 True 0)" and h2: "Timeout (example_config 1 True 0) = 0"
    by (simp_all add: example_config_def)
  have h4: "tflite_input (example_env decodes Hangs) edgetpu_detector example_request = Returns (Inr [0, 0, 0])"
    by (simp add: tflite_input_def ppm_match_def decode_image_def example_defs)
  have h5: "chan_recv (pool edgetpu_detector) = Some (new_handle (Some 0) 0, \<lparr>buf = [], cap = 1\<rparr>)"
    by (simp add: chan_recv_def edgetpu_detector_def)
  have h6: "length (buf (pool edgetpu_detector)) \<le> cap (pool edgetpu_detector)"
    by (simp add: edgetpu_detector_def)
  have i: "Invoke (example_env decodes Hangs) = Hangs" by (simp add: example_env_def)
  note t = edgetpu_timeout_enforced [OF h1 h2 example_edgetpu_New h4 h5 h6, of amd64 idle]
  have a: "timeout edgetpu_detector = 30 * 1000000000" using t by blast
  have b: "fst (tflite_Detect amd64 (example_env decodes Hangs) example_request
          (edgetpu_detector\<lparr>pool := pool edgetpu_detector\<rparr>, idle)) =
     Returns (Inl (Internal, ''detect failed''))" using t i by blast
  show ?thesis using h1 h2 example_edgetpu_New h4 h5 h6 a b by (intro conjI)
qed


text \<open>
  Claim C6: the code does not do what the claim says.  The channel is made with the
  configured concurrency as its capacity before the device count replaces that number, so
  with two devices and a configured concurrency of 1 the second handle does not fit:
  \<open>New\<close> waits for ever on the send, both interpreters made.
\<close>

theorem pool_capacity_not_overridden:
  "tflite_New (example_new_env [''usb:0'', ''usb:1''] all_made) (example_config 1 True 0) = (Blocks, [0, 1])"
  by (simp add: new_defs example_defs go_defs pool_loop.simps)


lemma newInterpreter_live:
  "newInterpreter env x dev live =
     (fst (newInterpreter env x dev []), live @ snd (newInterpreter env x dev []))"
  by (simp add: newInterpreter_def)

lemma newInterpreter_made:
  "fst (newInterpreter env x dev []) = Inr i \<Longrightarrow> newInterpreter env x dev live = (Inr x, live @ [x])"
  by (auto simp: newInterpreter_def split: if_splits)

lemma pool_loop_fails:
  assumes "m = nat (k - x)" and "0 \<le> x" and "x \<le> k" and "k < n"
    and "\<And>j. nat x \<le> j \<Longrightarrow> j < nat k \<Longrightarrow>
           fst (newInterpreter env j (if hw then Some j else None) []) = Inr j"
    and "fst (newInterpreter env (nat k) (if hw then Some (nat k) else None) []) = Inl err"
    and "length (buf p) + nat (k - x) \<le> cap p"
    and "hw \<longrightarrow> nat k < ndev"
  shows "pool_loop env hw ndev n x p cur live =
           (Returns (Inl err),
            live @ [nat x..<nat k] @ snd (newInterpreter env (nat k) (if hw then Some (nat k) else None) []))"
  using assms
proof (induction m arbitrary: x p cur live)
  case 0
  then have xk: "x = k" by simp
  have ni: "newInterpreter env (nat k) (if hw then Some (nat k) else None) live =
      (Inl err, live @ snd (newInterpreter env (nat k) (if hw then Some (nat k) else None) []))"
    using newInterpreter_live[of env "nat k" "if hw then Some (nat k) else None" live] "0.prems"(6)
    by simp
  show ?case
    using "0.prems"(4,8) ni unfolding xk
    by (subst pool_loop.simps) (simp add: Let_def)
next
  case (Suc m)
  then have lt: "x < k" by simp
  let ?dev = "if hw then Some (nat x) else None"
  have mk: "newInterpreter env (nat x) ?dev live = (Inr (nat x), live @ [nat x])"
    using Suc.prems(5)[of "nat x"] lt Suc.prems(2) newInterpreter_made by simp
  have room: "length (buf p) < cap p" using Suc.prems(7) lt by simp
  then have snd: "chan_send (new_handle ?dev (nat x)) p = Some (p\<lparr>buf := buf p @ [new_handle ?dev (nat x)]\<rparr>)"
    by (simp add: chan_send_def)
  have d: "\<not> (hw \<and> \<not> nat x < ndev)" using Suc.prems(8) lt Suc.prems(2) by auto
  have rec: "pool_loop env hw ndev n (x + 1) (p\<lparr>buf := buf p @ [new_handle ?dev (nat x)]\<rparr>)
               (Some (new_handle ?dev (nat x))) (live @ [nat x]) =
             (Returns (Inl err),
              (live @ [nat x]) @ [nat (x + 1)..<nat k] @
                snd (newInterpreter env (nat k) (if hw then Some (nat k) else None) []))"
  proof (rule Suc.IH)
    show "m = nat (k - (x + 1))" using Suc.prems(1) by simp
    show "0 \<le> x + 1" using Suc.prems(2) by simp
    show "x + 1 \<le> k" using lt by simp
    show "k < n" by (rule Suc.prems(4))
    show "fst (newInterpreter env j (if hw then Some j else None) []) = Inr j"
      if "nat (x + 1) \<le> j" "j < nat k" for j
      using Suc.prems(5)[of j] that Suc.prems(2) by simp
    show "fst (newInterpreter env (nat k) (if hw then Some (nat k) else None) []) = Inl err"
      by (rule Suc.prems(6))
    show "length (buf (p\<lparr>buf := buf p @ [new_handle ?dev (nat x)]\<rparr>)) + nat (k - (x + 1)) \<le>
          cap (p\<lparr>buf := buf p @ [new_handle ?dev (nat x)]\<rparr>)"
      using Suc.prems(7) lt by simp
    show "hw \<longrightarrow> nat k < ndev" by (rule Suc.prems(8))
  qed
  have up: "[nat x..<nat k] = nat x # [nat (x + 1)..<nat k]"
    using lt Suc.prems(2) by (simp add: upt_conv_Cons nat_add_distrib)
  have xn: "x < n" using lt Suc.prems(4) by simp
  show ?case
    using xn d mk snd rec unfolding up
    by (subst pool_loop.simps) (simp add: Let_def)
qed

lemma tf_pool_loop_fails:
  assumes "m = nat (k - x)" and "0 \<le> x" and "x \<le> k" and "k < n"
    and "\<And>j. nat x \<le> j \<Longrightarrow> j < nat k \<Longrightarrow> NewSession env j"
    and "\<not> NewSession env (nat k)"
    and "length (buf p) + nat (k - x) \<le> cap p"
  shows "tf_pool_loop env n x p live = (Returns (Inl CouldNotCreateSession), live @ [nat x..<nat k])"
  using assms
proof (induction m arbitrary: x p live)
  case 0
  then have xk: "x = k" by simp
  show ?case
    using "0.prems"(4,6) unfolding xk
    by (subst tf_pool_loop.simps) simp
next
  case (Suc m)
  then have lt: "x < k" by simp
  have mk: "NewSession env (nat x)" using Suc.prems(5)[of "nat x"] lt Suc.prems(2) by simp
  have room: "length (buf p) < cap p" using Suc.prems(7) lt by simp
  then have snd: "chan_send \<lparr>session = nat x, runs = 0\<rparr> p = Some (p\<lparr>buf := buf p @ [\<lparr>session = nat x, runs = 0\<rparr>]\<rparr>)"
    by (simp add: chan_send_def)
  have rec: "tf_pool_loop env n (x + 1) (p\<lparr>buf := buf p @ [\<lparr>session = nat x, runs = 0\<rparr>]\<rparr>) (live @ [nat x]) =
             (Returns (Inl CouldNotCreateSession), (live @ [nat x]) @ [nat (x + 1)..<nat k])"
  proof (rule Suc.IH)
    show "m = nat (k - (x + 1))" using Suc.prems(1) by simp
    show "0 \<le> x + 1" using Suc.prems(2) by simp
    show "x + 1 \<le> k" using lt by simp
    show "k < n" by (rule Suc.prems(4))
    show "NewSession env j" if "nat (x + 1) \<le> j" "j < nat k" for j
      using Suc.prems(5)[of j] that Suc.prems(2) by simp
    show "\<not> NewSession env (nat k)" by (rule Suc.prems(6))
    show "length (buf (p\<lparr>buf := buf p @ [\<lparr>session = nat x, runs = 0\<rparr>]\<rparr>)) + nat (k - (x + 1)) \<le>
          cap (p\<lparr>buf := buf p @ [\<lparr>session = nat x, runs = 0\<rparr>]\<rparr>)"
      using Suc.prems(7) lt by simp
  qed
  have up: "[nat x..<nat k] = nat x # [nat (x + 1)..<nat k]"
    using lt Suc.prems(2) by (simp add: upt_conv_Cons nat_add_distrib)
  have xn: "x < n" using lt Suc.prems(4) by simp
  show ?case
    using xn mk snd rec unfolding up
    by (subst tf_pool_loop.simps) simp
qed

text \<open>
  Claim C9, as stated, fails in its second half.  When the second handle cannot be made,
  \<open>New\<close> returns the error, and the first handle still exists: nothing destroys it, in
  either detector.
\<close>

theorem failed_construction_counterexample:
  "tflite_New (example_new_env [] second_fails) (example_config 2 False 0) =
     (Returns (Inl CouldNotCreateInterpreter), [0]) \<and>
   tf_New (tf_example_new_env second_fails) (example_config 2 False 0) =
     (Returns (Inl CouldNotCreateSession), [0])"
proof -
  have a: "tflite_New (example_new_env [] second_fails) (example_config 2 False 0) =
     (Returns (Inl CouldNotCreateInterpreter), [0])"
    by (simp add: new_defs example_defs go_defs pool_loop.simps)
  have b: "tf_New (tf_example_new_env second_fails) (example_config 2 False 0) =
     (Returns (Inl CouldNotCreateSession), [0])"
    by (simp add: tf_New_def chan_send_def example_defs go_defs tf_pool_loop.simps)
  show ?thesis using a b by blast
qed

text \<open>
  Claim C9, amended.  If the construction of handle \<open>k\<close> fails after the handles before
  it were made and put into the channel, \<open>New\<close> fails with that construction's error,
  and every handle made before is still there when it returns: none is released or
  destroyed.  (In the tflite detector the handles before \<open>k\<close> fit the channel when
  \<open>k\<close> is at most the configured concurrency; an interpreter whose tensors cannot be
  allocated is left behind too.)
\<close>

theorem failed_construction:
  assumes "0 \<le> NumConcurrent c" and "NewModelFromFile env" and "label_lines env = Some lines"
    and "HWAccel c \<longrightarrow> DeviceList env = Inr devs"
    and "0 \<le> k" and "k < (if HWAccel c then int (length devs) else NumConcurrent c)"
    and "k \<le> NumConcurrent c"
    and "\<forall>j < nat k. fst (newInterpreter env j (if HWAccel c then Some j else None) []) = Inr j"
    and "fst (newInterpreter env (nat k) (if HWAccel c then Some (nat k) else None) []) = Inl err"
    and "tf_label_lines tenv = Some tlines" and "ReadFile tenv" and "graph_Import tenv"
    and "0 \<le> k'" and "k' < NumConcurrent c'"
    and "\<forall>j < nat k'. NewSession tenv j" and "\<not> NewSession tenv (nat k')"
  shows "tflite_New env c =
           (Returns (Inl err),
            [0..<nat k] @ snd (newInterpreter env (nat k) (if HWAccel c then Some (nat k) else None) [])) \<and>
         tf_New tenv c' = (Returns (Inl CouldNotCreateSession), [0..<nat k'])"
proof
  let ?d0 = "new_detector c (load_labels lines)"
  let ?n = "if HWAccel c then int (length devs) else NumConcurrent c"
  obtain d where u: "use_edgetpu env ?d0 (NumConcurrent c) = Inr (d, ?n)"
    and hw: "hwAccel d = HWAccel c" and dv: "HWAccel c \<longrightarrow> devices d = devs"
    and pl: "pool d = \<lparr>buf = [], cap = nat (NumConcurrent c)\<rparr>"
  proof (cases "HWAccel c")
    case True
    then have "devs \<noteq> []" using assms(5,6) by auto
    then show ?thesis using True assms(4) that
      by (simp add: use_edgetpu_def new_detector_def)
  next
    case False
    then show ?thesis using that by (simp add: use_edgetpu_def new_detector_def)
  qed
  have ok: "fst (newInterpreter env j (if hwAccel d then Some j else None) []) = Inr j"
    if "nat 0 \<le> j" "j < nat k" for j
    using assms(8) that hw by simp
  have loop: "pool_loop env (hwAccel d) (length (devices d)) ?n 0 (pool d) None [] =
      (Returns (Inl err),
       [] @ [nat 0..<nat k] @ snd (newInterpreter env (nat k) (if hwAccel d then Some (nat k) else None) []))"
  proof (rule pool_loop_fails[OF refl])
    show "(0::int) \<le> 0" by simp
    show "0 \<le> k" by (rule assms(5))
    show "k < ?n" by (rule assms(6))
    show "fst (newInterpreter env j (if hwAccel d then Some j else None) []) = Inr j"
      if "nat 0 \<le> j" "j < nat k" for j using ok that by simp
    show "fst (newInterpreter env (nat k) (if hwAccel d then Some (nat k) else None) []) = Inl err"
      using assms(9) hw by simp
    show "length (buf (pool d)) + nat (k - 0) \<le> cap (pool d)"
      using assms(5,7) pl by simp
    show "hwAccel d \<longrightarrow> nat k < length (devices d)"
      using hw dv assms(5,6) by auto
  qed
  show "tflite_New env c =
           (Returns (Inl err),
            [0..<nat k] @ snd (newInterpreter env (nat k) (if HWAccel c then Some (nat k) else None) []))"
  proof -
    have nn: "\<not> NumConcurrent c < 0" using assms(1) by simp
    have hw': "(if hwAccel d then Some (nat k) else None) = (if HWAccel c then Some (nat k) else None)"
      using hw by simp
    show ?thesis
      unfolding tflite_New_def if_not_P[OF nn] using assms(2,3)
      by (simp only: u loop[unfolded hw'] simp_thms if_True if_False option.case sum.case prod.case
          exit.case append_Nil nat_0)
  qed
next
  have loop: "tf_pool_loop tenv (NumConcurrent c') 0 \<lparr>buf = [], cap = nat (NumConcurrent c')\<rparr> [] =
      (Returns (Inl CouldNotCreateSession), [] @ [nat 0..<nat k'])"
  proof (rule tf_pool_loop_fails[OF refl])
    show "(0::int) \<le> 0" by simp
    show "0 \<le> k'" by (rule assms(13))
    show "k' < NumConcurrent c'" by (rule assms(14))
    show "NewSession tenv j" if "nat 0 \<le> j" "j < nat k'" for j using assms(15) that by simp
    show "\<not> NewSession tenv (nat k')" by (rule assms(16))
    show "length (buf \<lparr>buf = [] :: Session list, cap = nat (NumConcurrent c')\<rparr>) + nat (k' - 0) \<le>
          cap \<lparr>buf = [] :: Session list, cap = nat (NumConcurrent c')\<rparr>"
      using assms(13,14) by simp
  qed
  have nn: "\<not> NumConcurrent c' < 0" using assms(13,14) by simp
  show "tf_New tenv c' = (Returns (Inl CouldNotCreateSession), [0..<nat k'])"
    unfolding tf_New_def if_not_P[OF nn] using assms(10,11,12)
    by (simp only: loop simp_thms if_True if_False option.case sum.case prod.case exit.case
        append_Nil nat_0 Let_def)
qed


text \<open>Two workers configured; the second cannot be made.\<close>

theorem failed_construction_witness:
  "0 \<le> NumConcurrent (example_config 2 False 0) \<and>
   NewModelFromFile (example_new_env [] second_fails) \<and>
   label_lines (example_new_env [] second_fails) = Some [''cat'', ''dog''] \<and>
   \<not> HWAccel (example_config 2 False 0) \<and>
   (1 :: int) < NumConcurrent (example_config 2 False 0) \<and>
   fst (newInterpreter (example_new_env [] second_fails) 0 None []) = Inr 0 \<and>
   fst (newInterpreter (example_new_env [] second_fails) 1 None []) = Inl CouldNotCreateInterpreter \<and>
   tf_label_lines (tf_example_new_env second_fails) = Some [''cat'', ''dog''] \<and>
   ReadFile (tf_example_new_env second_fails) \<and> graph_Import (tf_example_new_env second_fails) \<and>
   NewSession (tf_example_new_env second_fails) 0 \<and> \<not> NewSession (tf_example_new_env second_fails) 1 \<and>
   tflite_New (example_new_env [] second_fails) (example_config 2 False 0) =
     (Returns (Inl CouldNotCreateInterpreter), [0]) \<and>
   tf_New (tf_example_new_env second_fails) (example_config 2 False 0) =
     (Returns (Inl CouldNotCreateSession), [0])"
proof -
  have h: "0 \<le> NumConcurrent (example_config 2 False 0)"
    "NewModelFromFile (example_new_env [] second_fails)"
    "label_lines (example_new_env [] second_fails) = Some [''cat'', ''dog'']"
    "\<not> HWAccel (example_config 2 False 0)"
    "(1 :: int) < NumConcurrent (example_config 2 False 0)"
    "fst (newInterpreter (example_new_env [] second_fails) 0 None []) = Inr 0"
    "fst (newInterpreter (example_new_env [] second_fails) 1 None []) = Inl CouldNotCreateInterpreter"
    "tf_label_lines (tf_example_new_env second_fails) = Some [''cat'', ''dog'']"
    "ReadFile (tf_example_new_env second_fails)" "graph_Import (tf_example_new_env second_fails)"
    "NewSession (tf_example_new_env second_fails) 0" "\<not> NewSession (tf_example_new_env second_fails) 1"
    by (simp_all add: example_defs newInterpreter_def)
  have a4: "HWAccel (example_config 2 False 0) \<longrightarrow> DeviceList (example_new_env [] second_fails) = Inr []"
    using h(4) by simp
  have a6: "(1 :: int) < (if HWAccel (example_config 2 False 0) then int (length ([] :: Device list))
              else NumConcurrent (example_config 2 False 0))"
    using h(4,5) by simp
  have a7: "(1 :: int) \<le> NumConcurrent (example_config 2 False 0)" using h(5) by simp
  have a8: "\<forall>j < nat 1. fst (newInterpreter (example_new_env [] second_fails) j
              (if HWAccel (example_config 2 False 0) then Some j else None) []) = Inr j"
    using h(4,6) by simp
  have a9: "fst (newInterpreter (example_new_env [] second_fails) (nat 1)
              (if HWAccel (example_config 2 False 0) then Some (nat 1) else None) []) = Inl CouldNotCreateInterpreter"
    using h(4,7) by simp
  have a15: "\<forall>j < nat 1. NewSession (tf_example_new_env second_fails) j" using h(11) by simp
  have a16: "\<not> NewSession (tf_example_new_env second_fails) (nat 1)" using h(12) by simp
  note t = failed_construction [OF h(1,2,3) a4 _ a6 a7 a8 a9 h(8,9,10) _ h(5) a15 a16]
  have s: "snd (newInterpreter (example_new_env [] second_fails) (nat 1)
              (if HWAccel (example_config 2 False 0) then Some (nat 1) else None) []) = []"
    by (simp add: example_defs newInterpreter_def)
  have r: "tflite_New (example_new_env [] second_fails) (example_config 2 False 0) =
     (Returns (Inl CouldNotCreateInterpreter), [0])"
    "tf_New (tf_example_new_env second_fails) (example_config 2 False 0) =
     (Returns (Inl CouldNotCreateSession), [0])"
    using t s by simp_all
  show ?thesis using h r by (intro conjI)
qed
end
